theory Spec2Isabelle
  imports Complex_Main "HOL-Library.Char_ord" "HOL-Library.List_Lexorder" "HOL-Library.Multiset"
begin

section \<open>JavaScript values\<close>

text \<open>
  A number is a rational or \<open>NaN\<close>; the infinities and the negative zero are not part
  of the model. The handlers that read the inputs and save are modelled on the exact value
  of what was entered. The reports, whose digits depend on the rounding of the doubles,
  read every stored number as the double nearest to it and compute in the arithmetic of
  the doubles.
\<close>

datatype jsnum = NaN | Fin rat

text \<open>
  A property of a stored object: missing (\<open>undefined\<close>), \<open>null\<close>, a number or a string.
\<close>

datatype jsval = JUndefined | JNull | JNum jsnum | JStr string

fun isNaN :: "jsnum \<Rightarrow> bool" where
  "isNaN NaN = True"
| "isNaN (Fin q) = False"

text \<open>The relational operators: a comparison with \<open>NaN\<close> is false.\<close>

fun js_lt :: "jsnum \<Rightarrow> jsnum \<Rightarrow> bool" where
  "js_lt (Fin a) (Fin b) = (a < b)"
| "js_lt NaN y = False"
| "js_lt (Fin a) NaN = False"

fun js_le :: "jsnum \<Rightarrow> jsnum \<Rightarrow> bool" where
  "js_le (Fin a) (Fin b) = (a \<le> b)"
| "js_le NaN y = False"
| "js_le (Fin a) NaN = False"

fun js_add :: "jsnum \<Rightarrow> jsnum \<Rightarrow> jsnum" where
  "js_add (Fin a) (Fin b) = Fin (a + b)"
| "js_add NaN y = NaN"
| "js_add (Fin a) NaN = NaN"

fun js_sub :: "jsnum \<Rightarrow> jsnum \<Rightarrow> jsnum" where
  "js_sub (Fin a) (Fin b) = Fin (a - b)"
| "js_sub NaN y = NaN"
| "js_sub (Fin a) NaN = NaN"

fun js_mul :: "jsnum \<Rightarrow> jsnum \<Rightarrow> jsnum" where
  "js_mul (Fin a) (Fin b) = Fin (a * b)"
| "js_mul NaN y = NaN"
| "js_mul (Fin a) NaN = NaN"

text \<open>
  Division. The program divides by 10 and by the length of a non-empty array only; a
  division by zero, which is an infinity or \<open>NaN\<close> in JavaScript, is \<open>NaN\<close> here.
\<close>

fun js_div :: "jsnum \<Rightarrow> jsnum \<Rightarrow> jsnum" where
  "js_div (Fin a) (Fin b) = (if b = 0 then NaN else Fin (a / b))"
| "js_div NaN y = NaN"
| "js_div (Fin a) NaN = NaN"

text \<open>\<open>Math.round\<close>: the nearest integer, a tie going up.\<close>

fun Math_round :: "jsnum \<Rightarrow> jsnum" where
  "Math_round (Fin q) = Fin (of_int \<lfloor>q + 1 / 2\<rfloor>)"
| "Math_round NaN = NaN"

fun js_min :: "jsnum \<Rightarrow> jsnum \<Rightarrow> jsnum" where
  "js_min (Fin a) (Fin b) = Fin (min a b)"
| "js_min NaN y = NaN"
| "js_min (Fin a) NaN = NaN"

fun js_max :: "jsnum \<Rightarrow> jsnum \<Rightarrow> jsnum" where
  "js_max (Fin a) (Fin b) = Fin (max a b)"
| "js_max NaN y = NaN"
| "js_max (Fin a) NaN = NaN"


text \<open>
  The doubles. A number of the program is an IEEE double: a literal that is parsed, and
  every sum, difference and quotient, is the double nearest to the exact value, a tie going
  to the double with the even significand. \<open>to_double\<close> is this rounding, with the
  subnormal doubles and without the overflow to an infinity: for a value between \<open>2^e\<close>
  and \<open>2^(e+1)\<close> the doubles are the multiples of \<open>2^(e-52)\<close>, and below \<open>2^-1022\<close> the
  multiples of \<open>2^-1074\<close>.
\<close>

function exp_up :: "rat \<Rightarrow> int \<Rightarrow> int" where
  "exp_up a e = (if 2 \<le> a then exp_up (a / 2) (e + 1) else e)"
  by pat_completeness auto
termination
  by (relation "measure (\<lambda>(a, e). nat \<lfloor>a\<rfloor>)") (auto, linarith)

declare exp_up.simps [simp del]

text \<open>The exponent \<open>e\<close> of a positive value: \<open>2^e \<le> a < 2^(e+1)\<close>.\<close>

definition ilog2 :: "rat \<Rightarrow> int" where
  "ilog2 a =
     (if 1 \<le> a then exp_up a 0
      else (let k = exp_up (1 / a) 0 in if 1 / a = 2 powi k then - k else - k - 1))"

definition round_half_even :: "rat \<Rightarrow> int" where
  "round_half_even x =
     (let f = \<lfloor>x\<rfloor>; r = x - of_int f
      in if r < 1 / 2 then f
         else if 1 / 2 < r then f + 1
         else if even f then f else f + 1)"

definition to_double :: "rat \<Rightarrow> rat" where
  "to_double q =
     (if q = 0 then 0
      else (let a = \<bar>q\<bar>;
                p = max (ilog2 a - 52) (- 1074);
                m = round_half_even (a / 2 powi p)
            in (if q < 0 then - 1 else 1) * of_int m * 2 powi p))"

fun dbl :: "jsnum \<Rightarrow> jsnum" where
  "dbl NaN = NaN"
| "dbl (Fin q) = Fin (to_double q)"

text \<open>The sum, the difference and the quotient of two doubles.\<close>

definition f_add :: "jsnum \<Rightarrow> jsnum \<Rightarrow> jsnum" where
  "f_add a b = dbl (js_add a b)"

definition f_sub :: "jsnum \<Rightarrow> jsnum \<Rightarrow> jsnum" where
  "f_sub a b = dbl (js_sub a b)"

definition f_div :: "jsnum \<Rightarrow> jsnum \<Rightarrow> jsnum" where
  "f_div a b = dbl (js_div a b)"


section \<open>Strings and numbers\<close>

text \<open>
  A string is a list of UTF-16 code units; the model has the code units below 256.
\<close>

definition is_digit :: "char \<Rightarrow> bool" where
  "is_digit c = (CHR ''0'' \<le> c \<and> c \<le> CHR ''9'')"

definition digit_of :: "char \<Rightarrow> nat" where
  "digit_of c = of_char c - 48"

definition nat_of_digits :: "string \<Rightarrow> nat" where
  "nat_of_digits ds = foldl (\<lambda>a c. 10 * a + digit_of c) 0 ds"

text \<open>White space that the number parsers skip: TAB, LF, VT, FF, CR, SP and NBSP.\<close>

definition is_ws :: "char \<Rightarrow> bool" where
  "is_ws c = (of_char c \<in> {9, 10, 11, 12, 13, 32, 160 :: nat})"

definition trim :: "string \<Rightarrow> string" where
  "trim s = rev (dropWhile is_ws (rev (dropWhile is_ws s)))"

text \<open>An optional sign: whether it is a minus, and the rest.\<close>

fun scan_sign :: "string \<Rightarrow> bool \<times> string" where
  "scan_sign [] = (False, [])"
| "scan_sign (c # cs) =
     (if c = CHR ''-'' then (True, cs)
      else if c = CHR ''+'' then (False, cs)
      else (False, c # cs))"

text \<open>
  An optional exponent part \<open>e[+-]digits\<close>: its value and the rest. Without a digit after
  the \<open>e\<close> nothing is consumed.
\<close>

definition scan_exp :: "string \<Rightarrow> int \<times> string" where
  "scan_exp s =
     (case s of
        [] \<Rightarrow> (0, s)
      | c # t \<Rightarrow>
          if c = CHR ''e'' \<or> c = CHR ''E'' then
            (let (neg, u) = scan_sign t;
                 ds = takeWhile is_digit u
             in if ds = [] then (0, s)
                else (if neg then - int (nat_of_digits ds) else int (nat_of_digits ds),
                      dropWhile is_digit u))
          else (0, s))"

text \<open>
  The longest prefix that is an unsigned decimal literal (\<open>12\<close>, \<open>12.\<close>, \<open>12.5\<close>, \<open>.5\<close>,
  each with an optional exponent): its value and the rest, or nothing when no digit of a
  mantissa is there.
\<close>

definition scan_decimal :: "string \<Rightarrow> (rat \<times> string) option" where
  "scan_decimal s =
     (let ip = takeWhile is_digit s;
          r1 = dropWhile is_digit s;
          dot = (r1 \<noteq> [] \<and> hd r1 = CHR ''.'');
          fp = (if dot then takeWhile is_digit (tl r1) else []);
          r2 = (if dot then dropWhile is_digit (tl r1) else r1)
      in if ip = [] \<and> fp = [] then None
         else (let (e, r3) = scan_exp r2
               in Some (of_nat (nat_of_digits (ip @ fp)) / 10 ^ length fp * 10 powi e, r3)))"

text \<open>
  \<open>parseFloat\<close> of a string: leading white space, a sign, the longest decimal prefix; \<open>NaN\<close>
  when there is none. The literal \<open>Infinity\<close>, which \<open>parseFloat\<close> reads as an infinity, is
  \<open>NaN\<close> here.
\<close>

definition parseFloat_str :: "string \<Rightarrow> jsnum" where
  "parseFloat_str s =
     (let (neg, u) = scan_sign (dropWhile is_ws s)
      in case scan_decimal u of
           None \<Rightarrow> NaN
         | Some (v, r) \<Rightarrow> Fin (if neg then - v else v))"

text \<open>\<open>parseInt(s, 10)\<close>: leading white space, a sign, the longest run of digits.\<close>

definition parseInt_str :: "string \<Rightarrow> jsnum" where
  "parseInt_str s =
     (let (neg, u) = scan_sign (dropWhile is_ws s);
          ds = takeWhile is_digit u
      in if ds = [] then NaN
         else Fin (if neg then - of_nat (nat_of_digits ds) else of_nat (nat_of_digits ds)))"

text \<open>
  The literals \<open>0x..\<close>, \<open>0o..\<close> and \<open>0b..\<close> that \<open>Number\<close> accepts, without a sign.
\<close>

definition radix_digit :: "nat \<Rightarrow> char \<Rightarrow> nat option" where
  "radix_digit b c =
     (let n = (of_char c :: nat);
          v = (if 48 \<le> n \<and> n \<le> 57 then Some (n - 48)
               else if 97 \<le> n \<and> n \<le> 102 then Some (n - 87)
               else if 65 \<le> n \<and> n \<le> 70 then Some (n - 55)
               else None)
      in case v of None \<Rightarrow> None | Some d \<Rightarrow> if d < b then Some d else None)"

fun radix_value_acc :: "nat \<Rightarrow> nat \<Rightarrow> string \<Rightarrow> nat option" where
  "radix_value_acc b a [] = Some a"
| "radix_value_acc b a (c # cs) =
     (case radix_digit b c of
        None \<Rightarrow> None
      | Some d \<Rightarrow> radix_value_acc b (b * a + d) cs)"

definition radix_value :: "nat \<Rightarrow> string \<Rightarrow> nat option" where
  "radix_value b ds = (if ds = [] then None else radix_value_acc b 0 ds)"

definition scan_nondecimal :: "string \<Rightarrow> nat option" where
  "scan_nondecimal s =
     (case s of
        z # x # ds \<Rightarrow>
          if z \<noteq> CHR ''0'' then None
          else if x = CHR ''x'' \<or> x = CHR ''X'' then radix_value 16 ds
          else if x = CHR ''o'' \<or> x = CHR ''O'' then radix_value 8 ds
          else if x = CHR ''b'' \<or> x = CHR ''B'' then radix_value 2 ds
          else None
      | _ \<Rightarrow> None)"

text \<open>
  \<open>Number\<close> of a string: the whole string, white space trimmed, must be a numeric literal;
  the empty string is 0. The literal \<open>Infinity\<close> is \<open>NaN\<close> here; the one caller,
  \<open>safeNumber\<close>, maps both to \<open>null\<close>.
\<close>

definition Number_str :: "string \<Rightarrow> jsnum" where
  "Number_str s =
     (let t = trim s
      in if t = [] then Fin 0
         else case scan_nondecimal t of
                Some n \<Rightarrow> Fin (of_nat n)
              | None \<Rightarrow>
                  (let (neg, u) = scan_sign t
                   in case scan_decimal u of
                        None \<Rightarrow> NaN
                      | Some (v, r) \<Rightarrow> if r = [] then Fin (if neg then - v else v) else NaN))"

text \<open>The decimal digits of a natural number.\<close>

definition digit_char :: "nat \<Rightarrow> char" where
  "digit_char d =
     (if d = 0 then CHR ''0'' else if d = 1 then CHR ''1'' else if d = 2 then CHR ''2''
      else if d = 3 then CHR ''3'' else if d = 4 then CHR ''4'' else if d = 5 then CHR ''5''
      else if d = 6 then CHR ''6'' else if d = 7 then CHR ''7'' else if d = 8 then CHR ''8''
      else CHR ''9'')"

fun show_nat :: "nat \<Rightarrow> string" where
  "show_nat n =
     (if n < 10 then [digit_char n]
      else show_nat (n div 10) @ [digit_char (n mod 10)])"

declare show_nat.simps [simp del]

text \<open>
  The digits of a fraction \<open>0 \<le> f < 1\<close>, at most \<open>k\<close> of them.
\<close>

fun frac_digits :: "nat \<Rightarrow> rat \<Rightarrow> string" where
  "frac_digits 0 f = []"
| "frac_digits (Suc k) f =
     (if f = 0 then []
      else digit_char (nat \<lfloor>f * 10\<rfloor>) # frac_digits k (f * 10 - of_int \<lfloor>f * 10\<rfloor>))"

text \<open>
  The string of a number (\<open>String(n)\<close>, a template literal): the decimal expansion, cut
  after 20 fractional digits. It is the string JavaScript prints for a number that a short
  decimal literal denotes, between \<open>1e-6\<close> and \<open>1e21\<close> in magnitude; the exponent notation
  of the other magnitudes is not modelled.
\<close>

definition num_to_string :: "jsnum \<Rightarrow> string" where
  "num_to_string n =
     (case n of
        NaN \<Rightarrow> ''NaN''
      | Fin q \<Rightarrow>
          (let a = \<bar>q\<bar>; ip = \<lfloor>a\<rfloor>; fd = frac_digits 20 (a - of_int ip)
           in (if q < 0 then ''-'' else '''') @ show_nat (nat ip)
              @ (if fd = [] then '''' else CHR ''.'' # fd)))"

text \<open>
  \<open>n.toFixed(1)\<close>: the nearest multiple of one tenth of the magnitude, a tie going to the
  larger one, behind the sign of \<open>n\<close>. The exponent notation that \<open>toFixed\<close> uses from
  \<open>1e21\<close> on is not modelled.
\<close>

definition toFixed1 :: "jsnum \<Rightarrow> string" where
  "toFixed1 n =
     (case n of
        NaN \<Rightarrow> ''NaN''
      | Fin q \<Rightarrow>
          (let t = nat \<lfloor>\<bar>q\<bar> * 10 + 1 / 2\<rfloor>
           in (if q < 0 then ''-'' else '''') @ show_nat (t div 10) @ ''.'' @ show_nat (t mod 10)))"

text \<open>\<open>String(v)\<close> of a property value.\<close>

fun js_to_string :: "jsval \<Rightarrow> string" where
  "js_to_string JUndefined = ''undefined''"
| "js_to_string JNull = ''null''"
| "js_to_string (JNum n) = num_to_string n"
| "js_to_string (JStr s) = s"

text \<open>
  \<open>Number(v)\<close>, \<open>parseFloat(v)\<close> and \<open>parseInt(v, 10)\<close> of a property value. The parsers
  convert their argument to a string first; a number comes back from its own string, so
  \<open>parseFloat\<close> returns it as it is, and \<open>parseInt\<close> returns it truncated towards zero
  (which is what the digits before the point of its string give, for a number that is
  printed without an exponent).
\<close>

fun Number :: "jsval \<Rightarrow> jsnum" where
  "Number JUndefined = NaN"
| "Number JNull = Fin 0"
| "Number (JNum n) = n"
| "Number (JStr s) = Number_str s"

fun parseFloat :: "jsval \<Rightarrow> jsnum" where
  "parseFloat (JNum n) = n"
| "parseFloat (JStr s) = parseFloat_str s"
| "parseFloat JUndefined = NaN"
| "parseFloat JNull = NaN"

fun parseInt :: "jsval \<Rightarrow> jsnum" where
  "parseInt (JNum (Fin q)) = Fin (if q < 0 then - of_int \<lfloor>- q\<rfloor> else of_int \<lfloor>q\<rfloor>)"
| "parseInt (JNum NaN) = NaN"
| "parseInt (JStr s) = parseInt_str s"
| "parseInt JUndefined = NaN"
| "parseInt JNull = NaN"

text \<open>Truthiness of a property value, as \<open>||\<close> and \<open>?:\<close> test it.\<close>

fun truthy :: "jsval \<Rightarrow> bool" where
  "truthy JUndefined = False"
| "truthy JNull = False"
| "truthy (JNum NaN) = False"
| "truthy (JNum (Fin q)) = (q \<noteq> 0)"
| "truthy (JStr s) = (s \<noteq> [])"

text \<open>\<open>v ?? d\<close> and the test \<open>v !== null && v !== undefined\<close>.\<close>

fun nullish :: "jsval \<Rightarrow> bool" where
  "nullish JUndefined = True"
| "nullish JNull = True"
| "nullish (JNum n) = False"
| "nullish (JStr s) = False"


text \<open>
  What the reports read from a stored property: \<open>parseFloat(v)\<close> and \<open>parseInt(v, 10)\<close>,
  with the number that \<open>v\<close> holds taken as the double it is.
\<close>

definition parseFloat_dbl :: "jsval \<Rightarrow> jsnum" where
  "parseFloat_dbl v = dbl (parseFloat v)"

definition parseInt_dbl :: "jsval \<Rightarrow> jsnum" where
  "parseInt_dbl v = dbl (parseInt (case v of JNum n \<Rightarrow> JNum (dbl n) | _ \<Rightarrow> v))"


section \<open>The record store (src/db.js)\<close>

text \<open>One date's entry: \<open>{ date, weight, total_calorie }\<close>.\<close>

record log_record =
  date :: string
  weight :: jsval
  total_calorie :: jsval

text \<open>
  The object store \<open>records\<close> is created with \<open>keyPath: 'date'\<close>. IndexedDB keeps the
  objects of a store in the order of their keys; \<open>put\<close> replaces the object that has the
  key of the new one, or inserts the new one at its place; \<open>get\<close> returns the object with
  the key, \<open>getAll\<close> all of them in key order.
\<close>

fun store_put :: "log_record \<Rightarrow> log_record list \<Rightarrow> log_record list" where
  "store_put r [] = [r]"
| "store_put r (x # xs) =
     (if date r = date x then r # xs
      else if date r < date x then r # x # xs
      else x # store_put r xs)"

definition store_get :: "string \<Rightarrow> log_record list \<Rightarrow> log_record option" where
  "store_get k xs = find (\<lambda>r. date r = k) xs"

text \<open>
  The database: the objects of the store, and whether requests succeed. When the open
  request or a request on the store fails (\<open>onerror\<close>), the promise of the operation is
  rejected with the error and the store is as it was.
\<close>

record idb =
  db_ok :: bool
  records :: "log_record list"

datatype error = StorageError | TypeError

definition getRecord :: "string \<Rightarrow> idb \<Rightarrow> error + log_record option" where
  "getRecord d db = (if db_ok db then Inr (store_get d (records db)) else Inl StorageError)"

text \<open>\<open>upsertRecord\<close> resolves to the key of the object written.\<close>

definition upsertRecord :: "log_record \<Rightarrow> idb \<Rightarrow> error + (string \<times> idb)" where
  "upsertRecord r db =
     (if db_ok db then Inr (date r, db\<lparr>records := store_put r (records db)\<rparr>)
      else Inl StorageError)"

definition getAllRecords :: "idb \<Rightarrow> error + log_record list" where
  "getAllRecords db = (if db_ok db then Inr (records db) else Inl StorageError)"

text \<open>A run of operations on the store, each on the database the one before left.\<close>

datatype db_op = Get string | Upsert log_record | GetAll

fun run_op :: "idb \<Rightarrow> db_op \<Rightarrow> idb" where
  "run_op db (Get d) = db"
| "run_op db (Upsert r) = (case upsertRecord r db of Inl e \<Rightarrow> db | Inr (k, db') \<Rightarrow> db')"
| "run_op db GetAll = db"

definition run_ops :: "idb \<Rightarrow> db_op list \<Rightarrow> idb" where
  "run_ops db ops = foldl run_op db ops"

definition empty_db :: "bool \<Rightarrow> idb" where
  "empty_db ok = \<lparr>db_ok = ok, records = []\<rparr>"


text \<open>The store keeps its records in the order of their dates, one for a date.\<close>

definition store_inv :: "log_record list \<Rightarrow> bool" where
  "store_inv xs = (sorted (map date xs) \<and> distinct (map date xs))"


section \<open>What the handlers return\<close>

datatype mode = Morning | Night

text \<open>The messages that \<open>alert\<close> shows.\<close>

datatype alert =
    InvalidWeight
  | InvalidCalorie
  | SaveFailed
  | LoadFailed
  | NoExportData
  | ExportFailed
  | ReportFailed
  | InvalidRange

text \<open>The text that the save button shows after a save.\<close>

datatype save_msg = RecordUpdated | WeightSaved | CalorieSaved

text \<open>
  A handler returns, or returns after an \<open>alert\<close>, or throws an error that nothing catches.
\<close>

datatype 'a result = Returned 'a | Alerted alert | Threw error

text \<open>
  \<open>array.sort((a, b) => a.date.localeCompare(b.date))\<close>: a stable sort on the dates. The
  order of \<open>localeCompare\<close> is taken to be the order of the code units, which it is on
  strings of digits and hyphens of one shape.
\<close>

definition sort_by_date :: "log_record list \<Rightarrow> log_record list" where
  "sort_by_date rs = sort_key date rs"

text \<open>\<open>lines.join(sep)\<close>.\<close>

fun join :: "string \<Rightarrow> string list \<Rightarrow> string" where
  "join sep [] = []"
| "join sep [x] = x"
| "join sep (x # y # ys) = x @ sep @ join sep (y # ys)"


section \<open>The controller of src/unnamed/part\_000\<close>

text \<open>
  \<open>STATE\<close>, the values of the two inputs of \<open>UI\<close>, and the database.
\<close>

record app =
  currentDate :: string
  mode :: mode
  currentRecord :: "log_record option"
  isExistingRecord :: bool
  weightInput :: string
  calorieInput :: string
  dbase :: idb

text \<open>\<open>record || { date, weight: null, total_calorie: null }\<close>.\<close>

definition or_blank :: "string \<Rightarrow> log_record option \<Rightarrow> log_record" where
  "or_blank d rec =
     (case rec of
        Some r \<Rightarrow> r
      | None \<Rightarrow> \<lparr>date = d, weight = JNull, total_calorie = JNull\<rparr>)"

definition loadDataForDate :: "string \<Rightarrow> app \<Rightarrow> unit result \<times> app" where
  "loadDataForDate d st =
     (case getRecord d (dbase st) of
        Inl e \<Rightarrow> (Alerted LoadFailed, st)
      | Inr rec \<Rightarrow>
          (let cur = or_blank d rec
           in (Returned (),
               st\<lparr>currentRecord := Some cur,
                  isExistingRecord := (rec \<noteq> None),
                  weightInput :=
                    (if weight cur \<noteq> JNull \<and> weight cur \<noteq> JUndefined
                     then toFixed1 (Number (weight cur)) else []),
                  calorieInput :=
                    (if truthy (total_calorie cur) then js_to_string (total_calorie cur)
                     else [])\<rparr>)))"

definition handleDateChange :: "string \<Rightarrow> app \<Rightarrow> unit result \<times> app" where
  "handleDateChange v st = loadDataForDate v (st\<lparr>currentDate := v\<rparr>)"

definition switchMode :: "mode \<Rightarrow> app \<Rightarrow> app" where
  "switchMode m st = st\<lparr>mode := m\<rparr>"

text \<open>
  The record that \<open>handleSave\<close> writes is built from the two inputs: the weight rounded
  to one decimal place, or \<open>null\<close> for an empty input; the calories, or \<open>null\<close>.
\<close>

definition weightToSave :: "app \<Rightarrow> jsnum option" where
  "weightToSave st =
     (if weightInput st \<noteq> []
      then Some (js_div (Math_round (js_mul (parseFloat_str (weightInput st)) (Fin 10))) (Fin 10))
      else None)"

definition recordToSave :: "app \<Rightarrow> log_record" where
  "recordToSave st =
     \<lparr>date = currentDate st,
      weight = (case weightToSave st of None \<Rightarrow> JNull | Some w \<Rightarrow> JNum w),
      total_calorie =
        (if calorieInput st \<noteq> [] then JNum (parseInt_str (calorieInput st)) else JNull)\<rparr>"

definition handleSave :: "app \<Rightarrow> save_msg result \<times> app" where
  "handleSave st =
     (let isMorning = (mode st = Morning);
          weightVal = parseFloat_str (weightInput st);
          calorieVal = parseInt_str (calorieInput st)
      in if isMorning \<and> (isNaN weightVal \<or> js_le weightVal (Fin 0))
           then (Alerted InvalidWeight, st)
         else if \<not> isMorning \<and> (isNaN calorieVal \<or> js_lt calorieVal (Fin 0))
           then (Alerted InvalidCalorie, st)
         else
           (case currentRecord st of
              None \<Rightarrow> (Threw TypeError, st)
            | Some cur \<Rightarrow>
                (let st1 = st\<lparr>currentRecord :=
                             Some (if isMorning then cur\<lparr>weight := JStr (toFixed1 weightVal)\<rparr>
                                   else cur\<lparr>total_calorie := JNum calorieVal\<rparr>)\<rparr>;
                     st2 = (case weightToSave st of
                              None \<Rightarrow> st1
                            | Some w \<Rightarrow> st1\<lparr>weightInput := toFixed1 w\<rparr>)
                 in case upsertRecord (recordToSave st) (dbase st2) of
                      Inl e \<Rightarrow> (Alerted SaveFailed, st2)
                    | Inr (k, db') \<Rightarrow>
                        (Returned (if isExistingRecord st then RecordUpdated
                                   else if isMorning then WeightSaved else CalorieSaved),
                         st2\<lparr>dbase := db', currentRecord := Some (recordToSave st),
                             isExistingRecord := True\<rparr>))))"

text \<open>
  \<open>handleExport\<close>: the text of the link it builds, before \<open>encodeURI\<close>. A property that
  is not \<open>null\<close> is printed by the template.
\<close>

definition csv_cell_p0 :: "jsval \<Rightarrow> string" where
  "csv_cell_p0 v = (if v \<noteq> JNull then js_to_string v else [])"

definition csv_row_p0 :: "log_record \<Rightarrow> string" where
  "csv_row_p0 r =
     date r @ '','' @ csv_cell_p0 (weight r) @ '','' @ csv_cell_p0 (total_calorie r) @ [CHR 0x0A]"

definition handleExport :: "app \<Rightarrow> string result" where
  "handleExport st =
     (case getAllRecords (dbase st) of
        Inl e \<Rightarrow> Alerted ExportFailed
      | Inr rs \<Rightarrow>
          if rs = [] then Alerted NoExportData
          else Returned (''data:text/csv;charset=utf-8,'' @ ''Date,Weight,TotalCalorie'' @ [CHR 0x0A]
                         @ concat (map csv_row_p0 (sort_by_date rs))))"

text \<open>
  The report. A row of the table has the date of its record (the cell shows its month and
  day), the weight, and the colour and the text of the difference.
\<close>

datatype color = Inherit | Red | Blue

datatype table_row = Row string string color string | NoDataRow

text \<open>The difference cell, from the difference or its absence.\<close>

definition diff_cell_p0 :: "jsnum option \<Rightarrow> color \<times> string" where
  "diff_cell_p0 d =
     (case d of
        None \<Rightarrow> (Inherit, ''-'')
      | Some diff \<Rightarrow>
          (if js_lt (Fin 0) diff then Red else if js_lt diff (Fin 0) then Blue else Inherit,
           if diff = Fin 0 then [CHR 0xB1, CHR ''0'']
           else (if js_lt (Fin 0) diff then ''+'' else []) @ toFixed1 diff))"

text \<open>The body of the \<open>forEach\<close> of \<open>renderReportTable\<close>, with \<open>prevWeight\<close>.\<close>

fun report_rows_p0 :: "jsnum option \<Rightarrow> log_record list \<Rightarrow> table_row list" where
  "report_rows_p0 prevWeight [] = []"
| "report_rows_p0 prevWeight (r # rs) =
     (if weight r \<noteq> JNull \<and> weight r \<noteq> JUndefined then
        (let w = parseFloat_dbl (weight r);
             cell = diff_cell_p0
                      (case prevWeight of None \<Rightarrow> None | Some p \<Rightarrow> Some (f_sub w p))
         in Row (date r) (toFixed1 w) (fst cell) (snd cell) # report_rows_p0 (Some w) rs)
      else report_rows_p0 prevWeight rs)"

definition renderReportTable :: "log_record list \<Rightarrow> table_row list" where
  "renderReportTable rs =
     (let rows = report_rows_p0 None rs in if rows = [] then [NoDataRow] else rows)"

text \<open>
  The summary: \<open>-\<close>, or the average and the count, or these with the minimum and the
  maximum.
\<close>

datatype summary = Dash | Avg string nat | AvgMinMax string nat string string

text \<open>\<open>Math.min(...ws)\<close> and \<open>Math.max(...ws)\<close>, which the program calls on non-empty arrays.\<close>

fun Math_min :: "jsnum list \<Rightarrow> jsnum" where
  "Math_min [] = NaN"
| "Math_min (w # ws) = foldl js_min w ws"

fun Math_max :: "jsnum list \<Rightarrow> jsnum" where
  "Math_max [] = NaN"
| "Math_max (w # ws) = foldl js_max w ws"

definition weights_p0 :: "log_record list \<Rightarrow> jsnum list" where
  "weights_p0 rs =
     filter (\<lambda>w. js_lt (Fin 0) w)
       (map (\<lambda>r. parseFloat_dbl (weight r))
          (filter (\<lambda>r. weight r \<noteq> JNull \<and> weight r \<noteq> JUndefined) rs))"

definition calories_p0 :: "log_record list \<Rightarrow> jsnum list" where
  "calories_p0 rs =
     filter (\<lambda>c. js_lt (Fin 0) c)
       (map (\<lambda>r. parseInt_dbl (total_calorie r))
          (filter (\<lambda>r. total_calorie r \<noteq> JNull \<and> total_calorie r \<noteq> JUndefined) rs))"

definition renderSummary :: "log_record list \<Rightarrow> summary \<times> summary" where
  "renderSummary rs =
     (let weights = weights_p0 rs;
          weightHtml =
            (if length weights > 0 then
               (let sumW = foldl f_add (Fin 0) weights
                in AvgMinMax (toFixed1 (f_div sumW (Fin (of_nat (length weights)))))
                     (length weights) (toFixed1 (Math_min weights)) (toFixed1 (Math_max weights)))
             else Dash);
          calories = calories_p0 rs;
          calHtml =
            (if length calories > 0 then
               (let sumC = foldl f_add (Fin 0) calories
                in Avg (num_to_string (Math_round (f_div sumC (Fin (of_nat (length calories))))))
                     (length calories))
             else Dash)
      in (weightHtml, calHtml))"

text \<open>The records of the range, as \<open>updateReport\<close> filters and sorts them.\<close>

definition filtered_p0 :: "string \<Rightarrow> string \<Rightarrow> log_record list \<Rightarrow> log_record list" where
  "filtered_p0 start end all =
     sort_by_date (filter (\<lambda>r. start \<le> date r \<and> date r \<le> end) all)"

text \<open>
  \<open>updateReport\<close> returns without a report when a date input is empty; otherwise the
  report has the table and the two summaries.
\<close>

definition updateReport_p0 ::
  "string \<Rightarrow> string \<Rightarrow> idb \<Rightarrow> (table_row list \<times> summary \<times> summary) option result" where
  "updateReport_p0 start end d =
     (if start = [] \<or> end = [] then Returned None
      else case getAllRecords d of
             Inl e \<Rightarrow> Alerted ReportFailed
           | Inr allRecords \<Rightarrow>
               (let filtered = filtered_p0 start end allRecords
                in Returned (Some (renderReportTable filtered, renderSummary filtered))))"


section \<open>The controller of src/unnamed/part\_001\<close>

text \<open>
  \<open>safeNumber\<close>: a finite number, or \<open>null\<close>.
\<close>

definition safeNumber :: "jsval \<Rightarrow> rat option" where
  "safeNumber v =
     (if v = JNull \<or> v = JUndefined \<or> v = JStr [] then None
      else case Number v of NaN \<Rightarrow> None | Fin q \<Rightarrow> Some q)"

text \<open>\<open>safeNumber\<close> of a stored property, its number taken as the double it is.\<close>

definition safeNumber_dbl :: "jsval \<Rightarrow> rat option" where
  "safeNumber_dbl v = map_option to_double (safeNumber v)"

text \<open>
  \<open>parseISODate\<close> builds a \<open>Date\<close> of the string and moves it to the local midnight. The
  parameter \<open>D\<close> is the platform's part: the time of \<open>new Date(s)\<close> after
  \<open>setHours(0, 0, 0, 0)\<close>, or nothing for an invalid date.
\<close>

definition parseISODate :: "(string \<Rightarrow> int option) \<Rightarrow> string \<Rightarrow> int option" where
  "parseISODate D s = (if s = [] then None else D s)"

definition clampDateRange ::
  "(string \<Rightarrow> int option) \<Rightarrow> string \<Rightarrow> string \<Rightarrow> (int \<times> int) option" where
  "clampDateRange D start end =
     (case (parseISODate D start, parseISODate D end) of
        (Some s, Some e) \<Rightarrow> if s > e then None else Some (s, e)
      | _ \<Rightarrow> None)"

text \<open>
  \<open>state\<close>, the values of the three inputs of \<open>UI\<close>, and the database.
\<close>

record app1 =
  mode_p1 :: mode
  currentDate_p1 :: "string option"
  currentRecord_p1 :: "log_record option"
  dateInput_p1 :: string
  weightInput_p1 :: string
  calorieInput_p1 :: string
  dbase_p1 :: idb

text \<open>The text of an input for a property: empty for \<open>null\<close> and \<open>undefined\<close>.\<close>

definition input_text :: "jsval \<Rightarrow> string" where
  "input_text v = (if nullish v then [] else js_to_string v)"

definition loadRecordForDate :: "string \<Rightarrow> app1 \<Rightarrow> unit result \<times> app1" where
  "loadRecordForDate dateISO st =
     (let st1 = st\<lparr>currentDate_p1 := Some dateISO\<rparr>
      in case getRecord dateISO (dbase_p1 st1) of
           Inl e \<Rightarrow> (Threw e, st1)
         | Inr rec \<Rightarrow>
             (Returned (),
              st1\<lparr>currentRecord_p1 := rec,
                  dateInput_p1 := dateISO,
                  weightInput_p1 := (case rec of None \<Rightarrow> [] | Some r \<Rightarrow> input_text (weight r)),
                  calorieInput_p1 :=
                    (case rec of None \<Rightarrow> [] | Some r \<Rightarrow> input_text (total_calorie r))\<rparr>))"

text \<open>\<open>v ?? null\<close>.\<close>

definition or_null :: "jsval \<Rightarrow> jsval" where
  "or_null v = (if nullish v then JNull else v)"

text \<open>The value of \<open>safeNumber\<close> as a property: the number, or \<open>null\<close>.\<close>

definition num_or_null :: "rat option \<Rightarrow> jsval" where
  "num_or_null v = (case v of None \<Rightarrow> JNull | Some q \<Rightarrow> JNum (Fin q))"

text \<open>\<open>UI.dateInput?.value || state.currentDate\<close>.\<close>

definition dateISO :: "app1 \<Rightarrow> string option" where
  "dateISO st = (if dateInput_p1 st \<noteq> [] then Some (dateInput_p1 st) else currentDate_p1 st)"

text \<open>
  The record that \<open>saveCurrent\<close> writes: the field of the mode from its input, the other
  field from the record read for the date.
\<close>

definition next_record :: "app1 \<Rightarrow> string \<Rightarrow> log_record \<Rightarrow> log_record" where
  "next_record st d base =
     \<lparr>date = d,
      weight =
        (if mode_p1 st = Morning then num_or_null (safeNumber (JStr (weightInput_p1 st)))
         else or_null (weight base)),
      total_calorie =
        (if mode_p1 st = Night then num_or_null (safeNumber (JStr (calorieInput_p1 st)))
         else or_null (total_calorie base))\<rparr>"

definition saveCurrent :: "app1 \<Rightarrow> unit result \<times> app1" where
  "saveCurrent st =
     (case dateISO st of
        None \<Rightarrow> (Returned (), st)
      | Some d \<Rightarrow>
          if d = [] then (Returned (), st)
          else
            (let weightVal = safeNumber (JStr (weightInput_p1 st));
                 calVal = safeNumber (JStr (calorieInput_p1 st))
             in if mode_p1 st = Morning \<and> (case weightVal of None \<Rightarrow> True | Some w \<Rightarrow> w \<le> 0)
                  then (Alerted InvalidWeight, st)
                else if mode_p1 st \<noteq> Morning \<and> (case calVal of None \<Rightarrow> True | Some c \<Rightarrow> c \<le> 0)
                  then (Alerted InvalidCalorie, st)
                else
                  (case getRecord d (dbase_p1 st) of
                     Inl e \<Rightarrow> (Threw e, st)
                   | Inr rec \<Rightarrow>
                       (case upsertRecord (next_record st d (or_blank d rec)) (dbase_p1 st) of
                          Inl e \<Rightarrow> (Threw e, st)
                        | Inr (k, db') \<Rightarrow> loadRecordForDate d (st\<lparr>dbase_p1 := db'\<rparr>)))))"

definition switchMode_p1 :: "mode \<Rightarrow> app1 \<Rightarrow> app1" where
  "switchMode_p1 m st = st\<lparr>mode_p1 := m\<rparr>"

text \<open>\<open>exportCSV\<close>: the lines, and the text of the file.\<close>

definition csv_cell :: "jsval \<Rightarrow> string" where
  "csv_cell v = (if nullish v then [] else js_to_string v)"

definition csv_row :: "log_record \<Rightarrow> string" where
  "csv_row r = join '','' [date r, csv_cell (weight r), csv_cell (total_calorie r)]"

definition csv_lines :: "log_record list \<Rightarrow> string list" where
  "csv_lines rs =
     join '','' [''date'', ''weight'', ''total_calorie''] # map csv_row (sort_by_date rs)"

definition exportCSV :: "idb \<Rightarrow> string result" where
  "exportCSV d =
     (case getAllRecords d of
        Inl e \<Rightarrow> Threw e
      | Inr rs \<Rightarrow> Returned (join [CHR 0x0A] (csv_lines rs)))"

text \<open>The records of the range, as \<open>updateReport\<close> filters and sorts them.\<close>

definition filtered_p1 ::
  "(string \<Rightarrow> int option) \<Rightarrow> int \<Rightarrow> int \<Rightarrow> log_record list \<Rightarrow> log_record list" where
  "filtered_p1 D start end all =
     sort_by_date
       (filter (\<lambda>r. case parseISODate D (date r) of
                      None \<Rightarrow> False
                    | Some d \<Rightarrow> d \<ge> start \<and> d \<le> end) all)"

text \<open>
  The body of the \<open>forEach\<close> of \<open>updateReport\<close>, with \<open>prevWeight\<close>: a row has the date,
  the weight and the difference.
\<close>

definition diff_text_p1 :: "rat option \<Rightarrow> string" where
  "diff_text_p1 diff =
     (case diff of
        None \<Rightarrow> ''-''
      | Some d \<Rightarrow> if d > 0 then ''+'' @ toFixed1 (Fin d) else toFixed1 (Fin d))"

fun report_rows_p1 :: "rat option \<Rightarrow> log_record list \<Rightarrow> (string \<times> string \<times> string) list" where
  "report_rows_p1 prevWeight [] = []"
| "report_rows_p1 prevWeight (r # rs) =
     (let w = safeNumber_dbl (weight r);
          diff = (case (w, prevWeight) of
                    (Some a, Some p) \<Rightarrow> Some (to_double (a - p))
                  | _ \<Rightarrow> None)
      in (date r, (case w of None \<Rightarrow> ''-'' | Some a \<Rightarrow> toFixed1 (Fin a)), diff_text_p1 diff)
         # report_rows_p1 (if w \<noteq> None then w else prevWeight) rs)"

definition summary_p1 :: "rat list \<Rightarrow> (rat \<Rightarrow> string) \<Rightarrow> summary" where
  "summary_p1 vs fmt =
     (if length vs = 0 then Dash
      else Avg (fmt (to_double (foldl (\<lambda>a b. to_double (a + b)) 0 vs / of_nat (length vs))))
             (length vs))"

definition updateReport_p1 ::
  "(string \<Rightarrow> int option) \<Rightarrow> string \<Rightarrow> string \<Rightarrow> idb \<Rightarrow>
   ((string \<times> string \<times> string) list \<times> summary \<times> summary) result" where
  "updateReport_p1 D startv endv d =
     (case clampDateRange D startv endv of
        None \<Rightarrow> Alerted InvalidRange
      | Some (start, end) \<Rightarrow>
          (case getAllRecords d of
             Inl e \<Rightarrow> Threw e
           | Inr all \<Rightarrow>
               (let filtered = filtered_p1 D start end all;
                    weights = List.map_filter (\<lambda>r. safeNumber_dbl (weight r)) filtered;
                    cals = List.map_filter (\<lambda>r. safeNumber_dbl (total_calorie r)) filtered
                in Returned
                     (report_rows_p1 None filtered,
                      summary_p1 weights (\<lambda>avg. toFixed1 (Fin avg)),
                      summary_p1 cals (\<lambda>avg. num_to_string (Math_round (Fin avg)))))))"


section \<open>The words of the specification\<close>

text \<open>
  The validation constraints: an entered weight is a number above 0; entered calories are
  a number that is at least 0 in part\_000, and above 0 in part\_001.
\<close>

definition weight_ok_p0 :: "string \<Rightarrow> bool" where
  "weight_ok_p0 s = (case parseFloat_str s of NaN \<Rightarrow> False | Fin w \<Rightarrow> 0 < w)"

definition calorie_ok_p0 :: "string \<Rightarrow> bool" where
  "calorie_ok_p0 s = (case parseInt_str s of NaN \<Rightarrow> False | Fin c \<Rightarrow> 0 \<le> c)"

definition weight_ok_p1 :: "string \<Rightarrow> bool" where
  "weight_ok_p1 s = (case safeNumber (JStr s) of None \<Rightarrow> False | Some w \<Rightarrow> 0 < w)"

definition calorie_ok_p1 :: "string \<Rightarrow> bool" where
  "calorie_ok_p1 s = (case safeNumber (JStr s) of None \<Rightarrow> False | Some c \<Rightarrow> 0 < c)"


text \<open>A number rounded to one decimal place.\<close>

definition round_tenth :: "rat \<Rightarrow> rat" where
  "round_tenth v = of_int (round (v * 10)) / 10"


text \<open>
  The values of a field that are present, neither \<open>null\<close> nor \<open>undefined\<close>, in the order
  of the records.
\<close>

definition present :: "(log_record \<Rightarrow> jsval) \<Rightarrow> log_record list \<Rightarrow> jsval list" where
  "present f rs = filter (\<lambda>v. v \<noteq> JNull \<and> v \<noteq> JUndefined) (map f rs)"

text \<open>
  The numbers above 0 among some numbers; and the mean of some doubles in the arithmetic
  of the doubles: their sum, added up from 0 in their order, divided by their count.
\<close>

fun positive :: "jsnum \<Rightarrow> rat option" where
  "positive NaN = None"
| "positive (Fin q) = (if 0 < q then Some q else None)"

definition positives :: "jsnum list \<Rightarrow> rat list" where
  "positives vs = List.map_filter positive vs"

definition float_sum :: "rat list \<Rightarrow> rat" where
  "float_sum xs = foldl (\<lambda>a b. to_double (a + b)) 0 xs"

definition float_mean :: "rat list \<Rightarrow> rat" where
  "float_mean xs = to_double (float_sum xs / of_nat (length xs))"

text \<open>
  The differences of a sequence of weights: none for the first, and for every other one
  the weight minus the weight before it.
\<close>

definition successive_diffs :: "('a \<Rightarrow> 'a \<Rightarrow> 'a) \<Rightarrow> 'a list \<Rightarrow> 'a option list" where
  "successive_diffs sub ws =
     (case ws of
        [] \<Rightarrow> []
      | w # rest \<Rightarrow> None # map (\<lambda>(p, c). Some (sub c p)) (zip ws rest))"

text \<open>The lines of a text: the pieces between its line feeds.\<close>

fun split_lines :: "string \<Rightarrow> string list" where
  "split_lines [] = [[]]"
| "split_lines (c # cs) =
     (if c = CHR 0x0A then [] # split_lines cs
      else (case split_lines cs of
              [] \<Rightarrow> [[c]]
            | l # ls \<Rightarrow> (c # l) # ls))"

text \<open>A record none of whose fields holds a line feed.\<close>

definition one_line :: "log_record \<Rightarrow> bool" where
  "one_line r =
     (CHR 0x0A \<notin> set (date r) \<and>
      CHR 0x0A \<notin> set (js_to_string (weight r)) \<and>
      CHR 0x0A \<notin> set (js_to_string (total_calorie r)))"


section \<open>An instance of the platform's dates\<close>

text \<open>
  The number of the day of a date of the civil calendar, counted from 1 January 1970, and
  the number of days of a month.
\<close>

definition days_from_civil :: "int \<Rightarrow> int \<Rightarrow> int \<Rightarrow> int" where
  "days_from_civil y m d =
     (let y' = (if m \<le> 2 then y - 1 else y);
          era = y' div 400;
          yoe = y' - era * 400;
          doy = (153 * (if m > 2 then m - 3 else m + 9) + 2) div 5 + d - 1;
          doe = yoe * 365 + yoe div 4 - yoe div 100 + doy
      in era * 146097 + doe - 719468)"

definition days_in_month :: "int \<Rightarrow> int \<Rightarrow> int" where
  "days_in_month y m =
     (if m = 2 then (if y mod 4 = 0 \<and> (y mod 100 \<noteq> 0 \<or> y mod 400 = 0) then 29 else 28)
      else if m = 4 \<or> m = 6 \<or> m = 9 \<or> m = 11 then 30
      else 31)"

text \<open>
  For a string \<open>YYYY-MM-DD\<close> that is a date of the calendar: the time, in milliseconds, of
  the midnight that begins the date, in a zone at UTC. For every other string: nothing.
  This is what \<open>new Date(s)\<close> and \<open>setHours(0, 0, 0, 0)\<close> give for the values of a date
  input in such a zone.
\<close>

definition iso_date_time :: "string \<Rightarrow> int option" where
  "iso_date_time s =
     (if length s = 10 \<and> s ! 4 = CHR ''-'' \<and> s ! 7 = CHR ''-'' \<and>
         list_all is_digit (take 4 s) \<and> list_all is_digit (take 2 (drop 5 s)) \<and>
         list_all is_digit (drop 8 s)
      then
        (let y = int (nat_of_digits (take 4 s));
             m = int (nat_of_digits (take 2 (drop 5 s)));
             d = int (nat_of_digits (drop 8 s))
         in if 1 \<le> m \<and> m \<le> 12 \<and> 1 \<le> d \<and> d \<le> days_in_month y m
            then Some (days_from_civil y m d * 86400000)
            else None)
      else None)"


section \<open>Example states\<close>

text \<open>
  A database with one record, of 2 January 2024, whose calories are 0; the state of
  part\_000 after this date was loaded in morning mode; the state of part\_001 after it was
  loaded.
\<close>

definition ex_db :: idb where
  "ex_db =
     \<lparr>db_ok = True,
      records = [\<lparr>date = ''2024-01-02'', weight = JNum (Fin 70), total_calorie = JNum (Fin 0)\<rparr>]\<rparr>"

definition ex_app :: app where
  "ex_app =
     \<lparr>currentDate = ''2024-01-02'', mode = Morning,
      currentRecord =
        Some \<lparr>date = ''2024-01-02'', weight = JNum (Fin 70), total_calorie = JNum (Fin 0)\<rparr>,
      isExistingRecord = True, weightInput = ''70.0'', calorieInput = [], dbase = ex_db\<rparr>"

definition ex_app1 :: app1 where
  "ex_app1 =
     \<lparr>mode_p1 = Morning, currentDate_p1 = Some ''2024-01-02'',
      currentRecord_p1 =
        Some \<lparr>date = ''2024-01-02'', weight = JNum (Fin 70), total_calorie = JNum (Fin 0)\<rparr>,
      dateInput_p1 = ''2024-01-02'', weightInput_p1 = ''70'', calorieInput_p1 = ''0'',
      dbase_p1 = ex_db\<rparr>"

text \<open>
  The three records of the example of the specification: 70.0 and no calories on
  1 January 2024, 69.5 and 1800 on the 2nd, no weight and 2000 on the 3rd.
\<close>

definition ex_records :: "log_record list" where
  "ex_records =
     [\<lparr>date = ''2024-01-01'', weight = JNum (Fin 70), total_calorie = JNull\<rparr>,
      \<lparr>date = ''2024-01-02'', weight = JNum (Fin (139 / 2)), total_calorie = JNum (Fin 1800)\<rparr>,
      \<lparr>date = ''2024-01-03'', weight = JNull, total_calorie = JNum (Fin 2000)\<rparr>]"

text \<open>
  Two pairs of records whose texts depend on the rounding of the doubles: 60 and then
  60.15, whose double lies below 60.15; 70 and then 70.1, whose mean as a double lies
  below 70.05.
\<close>

definition ex_steps :: "log_record list" where
  "ex_steps =
     [\<lparr>date = ''2024-02-01'', weight = JNum (Fin 60), total_calorie = JNull\<rparr>,
      \<lparr>date = ''2024-02-02'', weight = JNum (Fin (1203 / 20)), total_calorie = JNull\<rparr>]"

definition ex_pair :: "log_record list" where
  "ex_pair =
     [\<lparr>date = ''2024-02-01'', weight = JNum (Fin 70), total_calorie = JNull\<rparr>,
      \<lparr>date = ''2024-02-02'', weight = JNum (Fin (701 / 10)), total_calorie = JNull\<rparr>]"


section \<open>Auxiliary definitions\<close>

text \<open>
  The differences of a sequence of weights behind an earlier weight, if there is one.
\<close>

fun diffs_from :: "('a \<Rightarrow> 'a \<Rightarrow> 'a) \<Rightarrow> 'a option \<Rightarrow> 'a list \<Rightarrow> 'a option list" where
  "diffs_from sub prev [] = []"
| "diffs_from sub prev (w # ws) = map_option (sub w) prev # diffs_from sub (Some w) ws"


text \<open>
  The row of part\_000 for a record that has a weight, and the row of part\_001 for a
  record, each with the difference of the record.
\<close>

definition row_p0 :: "log_record \<times> jsnum option \<Rightarrow> table_row" where
  "row_p0 = (\<lambda>(r, df). Row (date r) (toFixed1 (parseFloat_dbl (weight r)))
                (fst (diff_cell_p0 df)) (snd (diff_cell_p0 df)))"

definition row_p1 :: "log_record \<times> rat option \<Rightarrow> string \<times> string \<times> string" where
  "row_p1 = (\<lambda>(r, df). (date r,
       (case safeNumber_dbl (weight r) of None \<Rightarrow> ''-'' | Some a \<Rightarrow> toFixed1 (Fin a)),
       diff_text_p1 df))"

text \<open>The difference of every record, absent behind an absent weight.\<close>

fun all_diffs_p1 :: "rat option \<Rightarrow> log_record list \<Rightarrow> rat option list" where
  "all_diffs_p1 prev [] = []"
| "all_diffs_p1 prev (r # rs) =
     (case safeNumber_dbl (weight r) of
        None \<Rightarrow> None # all_diffs_p1 prev rs
      | Some a \<Rightarrow> map_option (\<lambda>p. to_double (a - p)) prev # all_diffs_p1 (Some a) rs)"

text \<open>
  A line of the text of part\_000 for a record, without the line feed that ends it.
\<close>

definition csv_line_p0 :: "log_record \<Rightarrow> string" where
  "csv_line_p0 r =
     date r @ '','' @ (if weight r = JNull then [] else js_to_string (weight r)) @ '','' @
     (if total_calorie r = JNull then [] else js_to_string (total_calorie r))"

section \<open>Properties of the store\<close>

lemma store_get_put: "store_get (date r) (store_put r xs) = Some r"
  by (induction xs) (auto simp: store_get_def)

lemma set_store_put: "date ` set (store_put r xs) \<subseteq> insert (date r) (date ` set xs)"
  by (induction xs) auto

lemma sorted_store_put:
  "sorted (map date xs) \<Longrightarrow> distinct (map date xs) \<Longrightarrow>
   sorted (map date (store_put r xs)) \<and> distinct (map date (store_put r xs))"
proof (induction xs)
  case Nil
  then show ?case by simp
next
  case (Cons x xs)
  have sub: "date ` set (store_put r xs) \<subseteq> insert (date r) (date ` set xs)"
    by (rule set_store_put)
  from Cons show ?case using sub by (auto simp: less_le)
qed

lemma store_inv_run_op: "store_inv (records db) \<Longrightarrow> store_inv (records (run_op db x))"
  by (cases x) (auto simp: store_inv_def upsertRecord_def sorted_store_put)

lemma store_inv_foldl: "store_inv (records db) \<Longrightarrow> store_inv (records (foldl run_op db ops))"
  by (induction ops arbitrary: db) (auto simp: store_inv_run_op)

text \<open>
  C6. A record written with \<open>upsertRecord\<close> is the record that \<open>getRecord\<close> returns for its
  date afterwards: on a database whose requests succeed, the write resolves and the read on
  the database it leaves resolves to the record written.
\<close>

theorem upsert_then_get:
  "db_ok db \<Longrightarrow> date r = d \<Longrightarrow>
   (case upsertRecord r db of
      Inl e \<Rightarrow> False
    | Inr (k, db') \<Rightarrow> k = d \<and> getRecord d db' = Inr (Some r))"
  by (auto simp: upsertRecord_def getRecord_def store_get_put)

theorem upsert_then_get_witness:
  "db_ok (empty_db True) \<and>
   date \<lparr>date = ''2024-01-01'', weight = JNum (Fin 70), total_calorie = JNull\<rparr> = ''2024-01-01'' \<and>
   (case upsertRecord \<lparr>date = ''2024-01-01'', weight = JNum (Fin 70), total_calorie = JNull\<rparr>
           (empty_db True) of
      Inl e \<Rightarrow> False
    | Inr (k, db') \<Rightarrow>
        k = ''2024-01-01'' \<and>
        getRecord ''2024-01-01'' db' =
          Inr (Some \<lparr>date = ''2024-01-01'', weight = JNum (Fin 70), total_calorie = JNull\<rparr>))"
  using upsert_then_get [of "empty_db True"
      "\<lparr>date = ''2024-01-01'', weight = JNum (Fin 70), total_calorie = JNull\<rparr>" "''2024-01-01''"]
  by (simp add: empty_db_def)

lemma store_get_None: "store_get k xs = None \<longleftrightarrow> k \<notin> date ` set xs"
  by (induction xs) (auto simp: store_get_def)

lemma length_store_put:
  "store_inv xs \<Longrightarrow>
   length (store_put r xs) =
     (if store_get (date r) xs = None then Suc (length xs) else length xs)"
proof (induction xs)
  case Nil
  show ?case by (simp add: store_get_def)
next
  case (Cons x xs)
  then have inv: "store_inv xs" and ge: "\<forall>y \<in> set xs. date x \<le> date y"
    by (auto simp: store_inv_def)
  show ?case
  proof (cases "date r = date x")
    case True
    then show ?thesis by (simp add: store_get_def)
  next
    case False
    show ?thesis
    proof (cases "date r < date x")
      case True
      then have "date r \<notin> date ` set (x # xs)"
        using ge by fastforce
      then have "store_get (date r) (x # xs) = None"
        using store_get_None [of "date r" "x # xs"] by blast
      with True False show ?thesis by simp
    next
      case ge': False
      have "store_get (date r) (x # xs) = store_get (date r) xs"
        using False by (auto simp: store_get_def)
      with False ge' Cons.IH [OF inv] show ?thesis by simp
    qed
  qed
qed

text \<open>
  C8. Starting from an empty store, after any run of \<open>getRecord\<close>, \<open>upsertRecord\<close> and
  \<open>getAllRecords\<close> no two records of the store have the same date; and an upsert after
  such a run adds a record when the store has none for the date and its requests succeed,
  and leaves the number of records as it is otherwise.
\<close>

theorem one_record_per_date:
  "distinct (map date (records (run_ops (empty_db ok) ops))) \<and>
   length (records (run_op (run_ops (empty_db ok) ops) (Upsert r))) =
     (if ok \<and> store_get (date r) (records (run_ops (empty_db ok) ops)) = None
      then Suc (length (records (run_ops (empty_db ok) ops)))
      else length (records (run_ops (empty_db ok) ops)))"
proof -
  let ?db = "run_ops (empty_db ok) ops"
  have "store_inv (records (empty_db ok))"
    by (simp add: store_inv_def empty_db_def)
  then have inv: "store_inv (records ?db)"
    unfolding run_ops_def by (rule store_inv_foldl)
  have step: "db_ok (run_op db x) = db_ok db" for db x
    by (cases x) (simp_all add: upsertRecord_def)
  have "db_ok (foldl run_op db ops) = db_ok db" for db
    by (induction ops arbitrary: db) (simp_all add: step)
  then have ok: "db_ok ?db = ok"
    by (simp add: run_ops_def empty_db_def)
  have d: "distinct (map date (records ?db))"
    using inv by (simp add: store_inv_def)
  have l: "length (records (run_op ?db (Upsert r))) =
     (if ok \<and> store_get (date r) (records ?db) = None
      then Suc (length (records ?db)) else length (records ?db))"
    using ok length_store_put [OF inv, of r] by (cases ok) (simp_all add: upsertRecord_def)
  from d l show ?thesis by (rule conjI)
qed



section \<open>Evaluation\<close>

lemma floor_rat_numeral_div: "\<lfloor>numeral a / numeral b :: rat\<rfloor> = numeral a div numeral b"
  by (metis floor_divide_of_int_eq of_int_numeral)

lemma floor_rat_neg_numeral_div:
  "\<lfloor>- (numeral a / numeral b) :: rat\<rfloor> = - numeral a div numeral b"
  by (metis floor_divide_of_int_eq of_int_numeral of_int_minus minus_divide_left)

lemma floor_rat_one_div: "\<lfloor>1 / numeral b :: rat\<rfloor> = 1 div numeral b"
  by (metis floor_divide_of_int_eq of_int_numeral of_int_1)

lemma frac_digits_numeral:
  "frac_digits (numeral k) f =
     (if f = 0 then []
      else digit_char (nat \<lfloor>f * 10\<rfloor>)
           # frac_digits (pred_numeral k) (f * 10 - of_int \<lfloor>f * 10\<rfloor>))"
  by (simp add: numeral_eq_Suc)

lemmas js_eval =
  parseFloat_str_def parseInt_str_def Number_str_def trim_def scan_nondecimal_def
  scan_decimal_def scan_exp_def is_digit_def is_ws_def nat_of_digits_def digit_of_def
  toFixed1_def num_to_string_def show_nat.simps digit_char_def frac_digits_numeral Let_def
  radix_value_def radix_digit_def floor_rat_numeral_div floor_rat_neg_numeral_div
  floor_rat_one_div
  safeNumber_def

lemmas db_eval = getRecord_def upsertRecord_def getAllRecords_def store_get_def

section \<open>Validation\<close>

lemma weight_ok_p0_iff:
  "weight_ok_p0 s \<longleftrightarrow> \<not> (isNaN (parseFloat_str s) \<or> js_le (parseFloat_str s) (Fin 0))"
  by (cases "parseFloat_str s") (auto simp: weight_ok_p0_def)

lemma calorie_ok_p0_iff:
  "calorie_ok_p0 s \<longleftrightarrow> \<not> (isNaN (parseInt_str s) \<or> js_lt (parseInt_str s) (Fin 0))"
  by (cases "parseInt_str s") (auto simp: calorie_ok_p0_def)

lemma mode_not_Morning: "m \<noteq> Morning \<longleftrightarrow> m = Night"
  by (cases m) auto













section \<open>What a save writes\<close>

lemma parseFloat_str_Nil: "parseFloat_str [] = NaN"
  by (simp add: parseFloat_str_def scan_decimal_def)

lemma handleSave_Returned:
  assumes "fst (handleSave st) = Returned m"
  shows "records (dbase (snd (handleSave st))) = store_put (recordToSave st) (records (dbase st))"
    and "if mode st = Morning then weight_ok_p0 (weightInput st)
         else calorie_ok_p0 (calorieInput st)"
  using assms
  by (auto simp: handleSave_def Let_def upsertRecord_def weight_ok_p0_iff
        calorie_ok_p0_iff mode_not_Morning
      split: option.splits if_splits)

lemma handleSave_stored:
  assumes "fst (handleSave st) = Returned m"
  shows "store_get (currentDate st) (records (dbase (snd (handleSave st)))) = Some (recordToSave st)"
proof -
  have "date (recordToSave st) = currentDate st"
    by (simp add: recordToSave_def)
  then show ?thesis
    using handleSave_Returned(1) [OF assms] store_get_put [of "recordToSave st"] by simp
qed

lemma handleSave_morning_weight:
  assumes "mode st = Morning" "fst (handleSave st) = Returned m"
  shows "\<exists>v. parseFloat_str (weightInput st) = Fin v \<and>
             weight (recordToSave st) = JNum (Fin (round_tenth v))"
proof -
  from assms handleSave_Returned(2) [OF assms(2)] have ok: "weight_ok_p0 (weightInput st)"
    by simp
  then obtain v where v: "parseFloat_str (weightInput st) = Fin v"
    by (cases "parseFloat_str (weightInput st)") (auto simp: weight_ok_p0_def)
  then have ne: "weightInput st \<noteq> []"
    using parseFloat_str_Nil by auto
  have "weight (recordToSave st) = JNum (Fin (round_tenth v))"
    using ne v by (simp add: recordToSave_def weightToSave_def round_tenth_def round_def)
  with v show ?thesis by blast
qed

lemma dbase_loadRecordForDate: "dbase_p1 (snd (loadRecordForDate d st)) = dbase_p1 st"
  by (simp add: loadRecordForDate_def Let_def split: sum.splits)

lemma saveCurrent_Returned:
  assumes "dateISO st = Some d" "d \<noteq> []" "fst (saveCurrent st) = Returned ()"
  shows "records (dbase_p1 (snd (saveCurrent st))) =
           store_put (next_record st d (or_blank d (store_get d (records (dbase_p1 st)))))
             (records (dbase_p1 st))"
    and "if mode_p1 st = Morning then weight_ok_p1 (weightInput_p1 st)
         else calorie_ok_p1 (calorieInput_p1 st)"
  using assms
  by (auto simp: saveCurrent_def Let_def upsertRecord_def getRecord_def
        weight_ok_p1_def calorie_ok_p1_def mode_not_Morning dbase_loadRecordForDate
      split: option.splits if_splits sum.splits)

lemma saveCurrent_stored:
  assumes "dateISO st = Some d" "d \<noteq> []" "fst (saveCurrent st) = Returned ()"
  shows "store_get d (records (dbase_p1 (snd (saveCurrent st)))) =
           Some (next_record st d (or_blank d (store_get d (records (dbase_p1 st)))))"
proof -
  let ?n = "next_record st d (or_blank d (store_get d (records (dbase_p1 st))))"
  have "date ?n = d"
    by (simp add: next_record_def)
  then show ?thesis
    using saveCurrent_Returned(1) [OF assms] store_get_put [of ?n] by simp
qed

lemma round_tenth_near: "\<bar>round_tenth v - v\<bar> \<le> 1 / 20"
proof -
  have "\<bar>of_int (round (v * 10)) - v * 10\<bar> \<le> 1 / 2"
    by (rule of_int_round_abs_le)
  then have "\<bar>(of_int (round (v * 10)) - v * 10) / 10\<bar> \<le> (1 / 2) / 10"
    by (simp del: of_int_round_abs_le)
  then show ?thesis
    by (simp add: round_tenth_def diff_divide_distrib)
qed

lemma round_tenth_tenths: "round_tenth v * 10 = of_int (round (v * 10))"
  by (simp add: round_tenth_def)

text \<open>
  C9, as amended. After a successful save in morning mode, the record that part\_000 has
  stored for the current date holds the entered weight rounded to one decimal place: a
  multiple of one tenth that is no further than one twentieth from the entered value. The
  record that part\_001 has stored for the date holds the entered number as it was parsed,
  not rounded.
\<close>

theorem stored_weight_precision:
  "(mode st = Morning \<and> fst (handleSave st) = Returned m \<longrightarrow>
      (case parseFloat_str (weightInput st) of
         NaN \<Rightarrow> False
       | Fin v \<Rightarrow>
           (case store_get (currentDate st) (records (dbase (snd (handleSave st)))) of
              None \<Rightarrow> False
            | Some r \<Rightarrow> weight r = JNum (Fin (round_tenth v))) \<and>
           \<bar>round_tenth v - v\<bar> \<le> 1 / 20 \<and> round_tenth v * 10 = of_int (round (v * 10)))) \<and>
   (mode_p1 st1 = Morning \<and> dateISO st1 = Some d \<and> d \<noteq> [] \<and>
    fst (saveCurrent st1) = Returned () \<longrightarrow>
      (case safeNumber (JStr (weightInput_p1 st1)) of
         None \<Rightarrow> False
       | Some v \<Rightarrow>
           (case store_get d (records (dbase_p1 (snd (saveCurrent st1)))) of
              None \<Rightarrow> False
            | Some r \<Rightarrow> weight r = JNum (Fin v))))"
proof (intro conjI impI)
  assume a: "mode st = Morning \<and> fst (handleSave st) = Returned m"
  then obtain v where v: "parseFloat_str (weightInput st) = Fin v"
      "weight (recordToSave st) = JNum (Fin (round_tenth v))"
    using handleSave_morning_weight [of st m] by blast
  from a have "store_get (currentDate st) (records (dbase (snd (handleSave st)))) =
      Some (recordToSave st)"
    using handleSave_stored [of st m] by simp
  with v show "case parseFloat_str (weightInput st) of
         NaN \<Rightarrow> False
       | Fin v \<Rightarrow>
           (case store_get (currentDate st) (records (dbase (snd (handleSave st)))) of
              None \<Rightarrow> False
            | Some r \<Rightarrow> weight r = JNum (Fin (round_tenth v))) \<and>
           \<bar>round_tenth v - v\<bar> \<le> 1 / 20 \<and> round_tenth v * 10 = of_int (round (v * 10))"
    using round_tenth_near [of v] round_tenth_tenths [of v] by simp
next
  assume b: "mode_p1 st1 = Morning \<and> dateISO st1 = Some d \<and> d \<noteq> [] \<and>
    fst (saveCurrent st1) = Returned ()"
  then have ok: "weight_ok_p1 (weightInput_p1 st1)"
    using saveCurrent_Returned(2) [of st1 d] by simp
  then obtain v where v: "safeNumber (JStr (weightInput_p1 st1)) = Some v"
    by (cases "safeNumber (JStr (weightInput_p1 st1))") (auto simp: weight_ok_p1_def)
  have "store_get d (records (dbase_p1 (snd (saveCurrent st1)))) =
      Some (next_record st1 d (or_blank d (store_get d (records (dbase_p1 st1)))))"
    using b saveCurrent_stored [of st1 d] by simp
  with v b show "case safeNumber (JStr (weightInput_p1 st1)) of
         None \<Rightarrow> False
       | Some v \<Rightarrow>
           (case store_get d (records (dbase_p1 (snd (saveCurrent st1)))) of
              None \<Rightarrow> False
            | Some r \<Rightarrow> weight r = JNum (Fin v))"
    by (simp add: next_record_def num_or_null_def)
qed

lemma ex_handleSave:
  "handleSave (ex_app\<lparr>weightInput := ''70.25''\<rparr>) =
     (Returned RecordUpdated,
      ex_app\<lparr>weightInput := ''70.3'',
             currentRecord := Some \<lparr>date = ''2024-01-02'', weight = JNum (Fin (703 / 10)), total_calorie = JNull\<rparr>,
             dbase := \<lparr>db_ok = True, records = [\<lparr>date = ''2024-01-02'', weight = JNum (Fin (703 / 10)), total_calorie = JNull\<rparr>]\<rparr>\<rparr>)"
  by (simp add: handleSave_def recordToSave_def weightToSave_def ex_app_def ex_db_def js_eval db_eval)

lemma ex_saveCurrent:
  "saveCurrent (ex_app1\<lparr>weightInput_p1 := ''70.25''\<rparr>) =
     (Returned (),
      ex_app1\<lparr>weightInput_p1 := ''70.25'',
              currentRecord_p1 := Some \<lparr>date = ''2024-01-02'', weight = JNum (Fin (281 / 4)), total_calorie = JNum (Fin 0)\<rparr>,
              dbase_p1 := \<lparr>db_ok = True, records = [\<lparr>date = ''2024-01-02'', weight = JNum (Fin (281 / 4)), total_calorie = JNum (Fin 0)\<rparr>]\<rparr>\<rparr>)"
  by (simp add: saveCurrent_def next_record_def or_blank_def or_null_def num_or_null_def dateISO_def
        loadRecordForDate_def input_text_def ex_app1_def ex_db_def js_eval db_eval)


text \<open>
  The theorem at the entered weights 70.25 (part\_000) and 70.5 (part\_001).
\<close>

theorem stored_weight_precision_witness:
  "mode (ex_app\<lparr>weightInput := ''70.25''\<rparr>) = Morning \<and>
   fst (handleSave (ex_app\<lparr>weightInput := ''70.25''\<rparr>)) = Returned RecordUpdated \<and>
   parseFloat_str ''70.25'' = Fin (281 / 4) \<and>
   (case store_get ''2024-01-02''
           (records (dbase (snd (handleSave (ex_app\<lparr>weightInput := ''70.25''\<rparr>))))) of
      None \<Rightarrow> False
    | Some r \<Rightarrow> weight r = JNum (Fin (round_tenth (281 / 4)))) \<and>
   mode_p1 (ex_app1\<lparr>weightInput_p1 := ''70.5''\<rparr>) = Morning \<and>
   dateISO (ex_app1\<lparr>weightInput_p1 := ''70.5''\<rparr>) = Some ''2024-01-02'' \<and>
   safeNumber (JStr ''70.5'') = Some (141 / 2) \<and>
   (case store_get ''2024-01-02''
           (records (dbase_p1 (snd (saveCurrent (ex_app1\<lparr>weightInput_p1 := ''70.5''\<rparr>))))) of
      None \<Rightarrow> False
    | Some r \<Rightarrow> weight r = JNum (Fin (141 / 2)))"
proof -
  have a: "fst (handleSave (ex_app\<lparr>weightInput := ''70.25''\<rparr>)) = Returned RecordUpdated"
    by (simp add: ex_handleSave)
  have b: "parseFloat_str ''70.25'' = Fin (281 / 4)"
    by (simp add: js_eval)
  have c: "fst (saveCurrent (ex_app1\<lparr>weightInput_p1 := ''70.5''\<rparr>)) = Returned ()"
    by (simp add: saveCurrent_def next_record_def or_blank_def or_null_def num_or_null_def
        dateISO_def loadRecordForDate_def input_text_def ex_app1_def ex_db_def js_eval db_eval)
  have d: "safeNumber (JStr ''70.5'') = Some (141 / 2)"
    by (simp add: js_eval)
  show ?thesis
    using stored_weight_precision [of "ex_app\<lparr>weightInput := ''70.25''\<rparr>" RecordUpdated
        "ex_app1\<lparr>weightInput_p1 := ''70.5''\<rparr>" "''2024-01-02''"] a b c d
    by (simp add: ex_app_def ex_app1_def dateISO_def)
qed

text \<open>
  The morning save of part\_001 with the entered weight 70.25 stores 70.25; rounded to one
  decimal place it would be 70.3.
\<close>

theorem unrounded_weight_p1:
  "mode_p1 (ex_app1\<lparr>weightInput_p1 := ''70.25''\<rparr>) = Morning \<and>
   fst (saveCurrent (ex_app1\<lparr>weightInput_p1 := ''70.25''\<rparr>)) = Returned () \<and>
   store_get ''2024-01-02''
     (records (dbase_p1 (snd (saveCurrent (ex_app1\<lparr>weightInput_p1 := ''70.25''\<rparr>))))) =
     Some \<lparr>date = ''2024-01-02'', weight = JNum (Fin (281 / 4)), total_calorie = JNum (Fin 0)\<rparr> \<and>
   round_tenth (281 / 4) = 703 / 10 \<and> (281 / 4 :: rat) \<noteq> 703 / 10"
  unfolding ex_saveCurrent
  by (simp add: ex_app1_def store_get_def round_tenth_def round_def)

section \<open>Loading a record with no calories left\<close>

lemma handleDateChange_loaded:
  assumes "getRecord d (dbase st) = Inr (Some r)"
  shows "snd (handleDateChange d st) =
           st\<lparr>currentDate := d, currentRecord := Some r, isExistingRecord := True,
              weightInput := (if weight r \<noteq> JNull \<and> weight r \<noteq> JUndefined
                              then toFixed1 (Number (weight r)) else []),
              calorieInput := (if truthy (total_calorie r) then js_to_string (total_calorie r)
                               else [])\<rparr>"
  using assms by (simp add: handleDateChange_def loadDataForDate_def or_blank_def Let_def)

text \<open>
  C10. In part\_000, when the record stored for a date has the calories 0, loading the date
  leaves the calorie input empty; and a save that succeeds after it, whatever weight was
  typed and whichever mode is on, stores for the date a record whose calories are \<open>null\<close>.
\<close>

theorem zero_calorie_lost_on_reload:
  "getRecord d (dbase st) = Inr (Some r) \<and> total_calorie r = JNum (Fin 0) \<longrightarrow>
     calorieInput (snd (handleDateChange d st)) = [] \<and>
     (fst (handleSave ((snd (handleDateChange d st))\<lparr>weightInput := wi, mode := m\<rparr>)) =
        Returned msg \<longrightarrow>
      (case store_get d
              (records (dbase (snd (handleSave
                 ((snd (handleDateChange d st))\<lparr>weightInput := wi, mode := m\<rparr>))))) of
         None \<Rightarrow> False
       | Some r' \<Rightarrow> total_calorie r' = JNull))"
proof (intro impI, elim conjE)
  assume g: "getRecord d (dbase st) = Inr (Some r)" and z: "total_calorie r = JNum (Fin 0)"
  let ?st1 = "snd (handleDateChange d st)"
  let ?st2 = "?st1\<lparr>weightInput := wi, mode := m\<rparr>"
  have l: "calorieInput ?st1 = []" "currentDate ?st1 = d"
    using z by (simp_all add: handleDateChange_loaded [OF g])
  have "fst (handleSave ?st2) = Returned msg \<Longrightarrow>
        store_get d (records (dbase (snd (handleSave ?st2)))) = Some (recordToSave ?st2)"
    using handleSave_stored [of ?st2 msg] l by simp
  moreover have "total_calorie (recordToSave ?st2) = JNull"
    using l by (simp add: recordToSave_def)
  ultimately show "calorieInput ?st1 = [] \<and>
     (fst (handleSave ?st2) = Returned msg \<longrightarrow>
      (case store_get d (records (dbase (snd (handleSave ?st2)))) of
         None \<Rightarrow> False
       | Some r' \<Rightarrow> total_calorie r' = JNull))"
    using l by simp
qed

lemma ex_load:
  "handleDateChange ''2024-01-02''
     (ex_app\<lparr>currentDate := ''2024-01-01'', currentRecord := None, isExistingRecord := False,
             weightInput := []\<rparr>) = (Returned (), ex_app)"
  by (simp add: handleDateChange_def loadDataForDate_def or_blank_def ex_app_def ex_db_def
      js_eval db_eval)

lemma ex_handleSave_71:
  "handleSave (ex_app\<lparr>weightInput := ''71''\<rparr>) =
     (Returned RecordUpdated,
      ex_app\<lparr>weightInput := ''71.0'',
             currentRecord :=
               Some \<lparr>date = ''2024-01-02'', weight = JNum (Fin 71), total_calorie = JNull\<rparr>,
             dbase :=
               \<lparr>db_ok = True,
                records =
                  [\<lparr>date = ''2024-01-02'', weight = JNum (Fin 71), total_calorie = JNull\<rparr>]\<rparr>\<rparr>)"
  by (simp add: handleSave_def recordToSave_def weightToSave_def ex_app_def ex_db_def
      js_eval db_eval)

text \<open>
  The theorem at the example database: the date is loaded, 71 is typed and saved.
\<close>

theorem zero_calorie_lost_on_reload_witness:
  "getRecord ''2024-01-02'' (dbase ex_app) =
     Inr (Some \<lparr>date = ''2024-01-02'', weight = JNum (Fin 70), total_calorie = JNum (Fin 0)\<rparr>) \<and>
   calorieInput (snd (handleDateChange ''2024-01-02'' ex_app)) = [] \<and>
   fst (handleSave ((snd (handleDateChange ''2024-01-02'' ex_app))
          \<lparr>weightInput := ''71'', mode := Morning\<rparr>)) = Returned RecordUpdated \<and>
   (case store_get ''2024-01-02''
           (records (dbase (snd (handleSave
              ((snd (handleDateChange ''2024-01-02'' ex_app))
                 \<lparr>weightInput := ''71'', mode := Morning\<rparr>))))) of
      None \<Rightarrow> False
    | Some r' \<Rightarrow> total_calorie r' = JNull)"
proof -
  have g: "getRecord ''2024-01-02'' (dbase ex_app) =
     Inr (Some \<lparr>date = ''2024-01-02'', weight = JNum (Fin 70), total_calorie = JNum (Fin 0)\<rparr>)"
    by (simp add: ex_app_def ex_db_def db_eval)
  have l: "snd (handleDateChange ''2024-01-02'' ex_app) = ex_app"
    by (simp add: handleDateChange_def loadDataForDate_def or_blank_def ex_app_def ex_db_def
        js_eval db_eval)
  have s: "(ex_app\<lparr>weightInput := ''71'', mode := Morning\<rparr>) = ex_app\<lparr>weightInput := ''71''\<rparr>"
    by (simp add: ex_app_def)
  show ?thesis
    using zero_calorie_lost_on_reload [where d = "''2024-01-02''" and st = ex_app
        and r = "\<lparr>date = ''2024-01-02'', weight = JNum (Fin 70), total_calorie = JNum (Fin 0)\<rparr>"
        and wi = "''71''" and m = Morning and msg = RecordUpdated] g
    by (simp add: l s ex_handleSave_71)
qed

text \<open>
  C1, at an input where part\_000 does not keep the untouched field. The store holds for
  2 January 2024 the weight 70 and the calories 0. The date is loaded, the weight 71 is
  entered and saved in morning mode: the save succeeds, and the record stored for the date
  has the calories \<open>null\<close>, not 0.
\<close>

theorem morning_save_drops_zero_calorie:
  "store_get ''2024-01-02'' (records (dbase ex_app)) =
     Some \<lparr>date = ''2024-01-02'', weight = JNum (Fin 70), total_calorie = JNum (Fin 0)\<rparr> \<and>
   handleDateChange ''2024-01-02''
     (ex_app\<lparr>currentDate := ''2024-01-01'', currentRecord := None, isExistingRecord := False,
             weightInput := []\<rparr>) = (Returned (), ex_app) \<and>
   fst (handleSave (ex_app\<lparr>weightInput := ''71''\<rparr>)) = Returned RecordUpdated \<and>
   store_get ''2024-01-02'' (records (dbase (snd (handleSave (ex_app\<lparr>weightInput := ''71''\<rparr>))))) =
     Some \<lparr>date = ''2024-01-02'', weight = JNum (Fin 71), total_calorie = JNull\<rparr>"
  by (simp add: ex_load ex_handleSave_71) (simp add: ex_app_def ex_db_def store_get_def)

section \<open>The merge of part\_001\<close>

lemma saveCurrent_keeps_other_field:
  assumes "dateISO st = Some d" "d \<noteq> []" "fst (saveCurrent st) = Returned ()"
    and "store_get d (records (dbase_p1 st)) = Some r"
  shows "case store_get d (records (dbase_p1 (snd (saveCurrent st)))) of
           None \<Rightarrow> False
         | Some r' \<Rightarrow>
             if mode_p1 st = Morning then total_calorie r' = or_null (total_calorie r)
             else weight r' = or_null (weight r)"
  using saveCurrent_stored [OF assms(1-3)] assms(4)
  by (simp add: next_record_def or_blank_def mode_not_Morning)


section \<open>Calories that come back from the input\<close>

lemma digit_char_digit: "d < 10 \<Longrightarrow> is_digit (digit_char d) \<and> digit_of (digit_char d) = d"
  by (auto simp: digit_char_def is_digit_def digit_of_def)

lemma nat_of_digits_snoc: "nat_of_digits (ds @ [c]) = 10 * nat_of_digits ds + digit_of c"
  by (simp add: nat_of_digits_def)

lemma show_nat_digits: "list_all is_digit (show_nat n) \<and> nat_of_digits (show_nat n) = n"
proof (induction n rule: show_nat.induct)
  case (1 n)
  show ?case
  proof (cases "n < 10")
    case True
    then show ?thesis
      by (subst (1 2) show_nat.simps) (simp add: digit_char_digit nat_of_digits_def)
  next
    case False
    then show ?thesis
      using "1.IH" digit_char_digit [of "n mod 10"]
      by (subst (1 2) show_nat.simps) (simp add: nat_of_digits_snoc)
  qed
qed

lemma show_nat_not_Nil: "show_nat n \<noteq> []"
  by (subst show_nat.simps) simp

lemma takeWhile_all: "list_all P xs \<Longrightarrow> takeWhile P xs = xs"
  by (induction xs) auto

lemma digit_not_ws: "is_digit c \<Longrightarrow> \<not> is_ws c \<and> c \<noteq> CHR ''-'' \<and> c \<noteq> CHR ''+''"
  by (auto simp: is_digit_def is_ws_def less_eq_char_def)

lemma parseInt_str_digits:
  assumes "list_all is_digit ds" "ds \<noteq> []"
  shows "parseInt_str ds = Fin (of_nat (nat_of_digits ds))"
proof -
  from assms obtain c cs where ds: "ds = c # cs" and c: "is_digit c"
    by (cases ds) auto
  have "dropWhile is_ws ds = ds"
    using ds c digit_not_ws by simp
  moreover have "scan_sign ds = (False, ds)"
    using ds c digit_not_ws by simp
  ultimately show ?thesis
    using assms by (simp add: parseInt_str_def takeWhile_all)
qed

lemma num_to_string_nat: "num_to_string (Fin (of_nat n)) = show_nat n"
  by (simp add: num_to_string_def Let_def frac_digits_numeral)

lemma parseInt_str_num_to_string: "parseInt_str (num_to_string (Fin (of_nat n))) = Fin (of_nat n)"
  using show_nat_digits [of n] show_nat_not_Nil [of n]
  by (simp add: num_to_string_nat parseInt_str_digits)

text \<open>
  In part\_000 the calories of the loaded record, when they are a whole number above 0, are
  written back by the save that follows the load.
\<close>

lemma handleSave_keeps_calories:
  assumes "getRecord d (dbase st) = Inr (Some r)" "total_calorie r = JNum (Fin (of_nat n))" "0 < n"
    and "fst (handleSave ((snd (handleDateChange d st))\<lparr>weightInput := wi, mode := m\<rparr>)) =
           Returned msg"
  shows "store_get d
           (records (dbase (snd (handleSave
              ((snd (handleDateChange d st))\<lparr>weightInput := wi, mode := m\<rparr>))))) =
         Some (recordToSave ((snd (handleDateChange d st))\<lparr>weightInput := wi, mode := m\<rparr>))"
    and "total_calorie (recordToSave ((snd (handleDateChange d st))\<lparr>weightInput := wi, mode := m\<rparr>)) =
         total_calorie r"
proof -
  let ?st1 = "snd (handleDateChange d st)"
  let ?st2 = "?st1\<lparr>weightInput := wi, mode := m\<rparr>"
  have l: "calorieInput ?st1 = show_nat n" "currentDate ?st1 = d"
    using assms(2,3) by (simp_all add: handleDateChange_loaded [OF assms(1)] num_to_string_nat)
  show "store_get d (records (dbase (snd (handleSave ?st2)))) = Some (recordToSave ?st2)"
    using handleSave_stored [OF assms(4)] l by simp
  show "total_calorie (recordToSave ?st2) = total_calorie r"
    using l assms(2) show_nat_not_Nil [of n] parseInt_str_num_to_string [of n]
    by (simp add: recordToSave_def num_to_string_nat)
qed


section \<open>The rounding of the doubles\<close>

text \<open>
  The exponent that \<open>ilog2\<close> finds is the one of the binade of its argument, and
  \<open>round_half_even\<close> is within one half of its argument.
\<close>

lemma exp_up_bounds:
  "1 \<le> a \<Longrightarrow> 2 powi (exp_up a e - e) \<le> a \<and> a < 2 powi (exp_up a e - e + 1)"
proof (induction a e rule: exp_up.induct)
  case (1 a e)
  show ?case
  proof (cases "2 \<le> a")
    case True
    then have h: "1 \<le> a / 2" by simp
    have eq: "exp_up a e = exp_up (a / 2) (e + 1)"
      using True by (subst exp_up.simps) simp
    from "1.IH" [OF True h]
    have lo: "2 powi (exp_up (a / 2) (e + 1) - (e + 1)) \<le> a / 2"
      and hi: "a / 2 < 2 powi (exp_up (a / 2) (e + 1) - (e + 1) + 1)" by auto
    have s: "(2 :: rat) powi (k + 1) = 2 powi k * 2" for k
      by (simp add: power_int_add)
    have "2 powi (exp_up a e - e) = (2 :: rat) powi (exp_up (a / 2) (e + 1) - (e + 1)) * 2"
      using s [of "exp_up (a / 2) (e + 1) - (e + 1)"] by (simp add: eq)
    moreover have "2 powi (exp_up a e - e + 1) = (2 :: rat) powi (exp_up (a / 2) (e + 1) - (e + 1) + 1) * 2"
      using s [of "exp_up (a / 2) (e + 1) - (e + 1) + 1"] by (simp add: eq add.commute)
    ultimately show ?thesis
      using lo hi by simp
  next
    case False
    then have "exp_up a e = e"
      by (subst exp_up.simps) simp
    then show ?thesis
      using False "1.prems" by simp
  qed
qed

lemma ilog2_bounds:
  assumes "0 < a"
  shows "2 powi (ilog2 a) \<le> a \<and> a < 2 powi (ilog2 a + 1)"
proof (cases "1 \<le> a")
  case True
  then show ?thesis
    using exp_up_bounds [of a 0] by (simp add: ilog2_def)
next
  case False
  let ?k = "exp_up (1 / a) 0"
  have "1 \<le> 1 / a" using False assms by simp
  then have b: "2 powi ?k \<le> 1 / a" "1 / a < 2 powi (?k + 1)"
    using exp_up_bounds [of "1 / a" 0] by auto
  have p: "(0 :: rat) < 2 powi j" for j by simp
  show ?thesis
  proof (cases "1 / a = 2 powi ?k")
    case True
    then have "a = 2 powi (- ?k)"
      using assms by (simp add: power_int_minus field_simps)
    then have a: "a = 2 powi (- ?k)" .
    have "(2 :: rat) powi (- ?k + 1) = 2 powi (- ?k) * 2"
      using power_int_add [of "2 :: rat" "- ?k" 1] by simp
    then have "a < 2 powi (- ?k + 1)"
      using a assms by simp
    then show ?thesis
      using True a False by (simp add: ilog2_def Let_def)
  next
    case False2: False
    then have lt: "2 powi ?k < 1 / a" using b by simp
    have 1: "a < 2 powi (- ?k)"
      using lt assms p [of ?k] by (simp add: power_int_minus field_simps)
    have 2: "2 powi (- ?k - 1) \<le> a"
    proof -
      have "1 / a < 2 powi (?k + 1)" by (rule b)
      then have "1 < a * 2 powi (?k + 1)" using assms by (simp add: field_simps)
      then have "1 / 2 powi (?k + 1) < a" using p [of "?k + 1"] by (simp add: field_simps)
      moreover have "- ?k - 1 = - (?k + 1)"
        by simp
      then have "(2::rat) powi (- ?k - 1) = 1 / 2 powi (?k + 1)"
        by (simp only: power_int_minus inverse_eq_divide)
      ultimately show ?thesis by simp
    qed
    show ?thesis
      using 1 2 False False2 by (simp add: ilog2_def Let_def)
  qed
qed

lemma round_half_even_error: "\<bar>of_int (round_half_even x) - x\<bar> \<le> 1 / 2"
proof -
  have f: "of_int \<lfloor>x\<rfloor> \<le> x" "x < of_int \<lfloor>x\<rfloor> + 1"
    by linarith+
  show ?thesis
    unfolding round_half_even_def Let_def
    using f by (auto simp: abs_le_iff)
qed


lemma round_half_even_mono: "x \<le> of_int n \<Longrightarrow> round_half_even x \<le> n"
proof -
  assume a: "x \<le> of_int n"
  have f: "of_int \<lfloor>x\<rfloor> \<le> x" "x < of_int \<lfloor>x\<rfloor> + 1"
    by linarith+
  have le: "\<lfloor>x\<rfloor> \<le> n"
    using a by (simp add: floor_le_iff)
  show ?thesis
  proof (cases "\<lfloor>x\<rfloor> = n")
    case True
    then have "x = of_int n" using a f by simp
    then show ?thesis
      by (simp add: round_half_even_def)
  next
    case False
    then have "\<lfloor>x\<rfloor> + 1 \<le> n" using le by simp
    then show ?thesis
      unfolding round_half_even_def Let_def by auto
  qed
qed

lemma round_half_even_nonneg: "0 \<le> x \<Longrightarrow> 0 \<le> round_half_even x"
  unfolding round_half_even_def Let_def by auto

text \<open>
  The value of \<open>to_double\<close> is a double: a significand of at most 53 bits times a power
  of two that is at least \<open>2^-1074\<close>; and it is within half a unit of the last place of
  its argument.
\<close>

lemma to_double_significand:
  assumes "q \<noteq> 0"
  shows "\<exists>m. \<bar>m\<bar> \<le> 2 ^ 53 \<and>
    to_double q = of_int m * 2 powi (max (ilog2 \<bar>q\<bar> - 52) (- 1074))"
proof -
  define a where "a = \<bar>q\<bar>"
  define p where "p = max (ilog2 a - 52) (- 1074)"
  define m where "m = round_half_even (a / 2 powi p)"
  define s :: int where "s = (if q < 0 then - 1 else 1)"
  have pos: "0 < a" using assms by (simp add: a_def)
  have hi: "a < 2 powi (ilog2 a + 1)"
    using ilog2_bounds [OF pos] by simp
  have "ilog2 a + 1 \<le> p + 53" by (simp add: p_def)
  then have "(2 :: rat) powi (ilog2 a + 1) \<le> 2 powi (p + 53)"
    by (intro power_int_increasing) simp_all
  also have "\<dots> = 2 powi p * 2 ^ 53"
    using power_int_add [of "2 :: rat" p 53] by simp
  finally have "a < 2 powi p * 2 ^ 53"
    using hi by simp
  then have "a / 2 powi p \<le> of_int (2 ^ 53)"
    by (simp add: field_simps)
  then have up: "m \<le> 2 ^ 53"
    unfolding m_def by (rule round_half_even_mono)
  have lo: "0 \<le> m"
    unfolding m_def by (rule round_half_even_nonneg) (simp add: pos less_imp_le)
  have "to_double q = (if q < 0 then - 1 else 1) * of_int m * 2 powi p"
    using assms unfolding to_double_def Let_def m_def p_def a_def by simp
  then have "to_double q = of_int (s * m) * 2 powi p"
    by (simp add: s_def)
  moreover have "\<bar>s * m\<bar> \<le> 2 ^ 53"
    using up lo by (simp add: s_def abs_mult)
  ultimately show ?thesis
    unfolding p_def a_def by blast
qed

lemma to_double_error:
  assumes "q \<noteq> 0"
  shows "\<bar>to_double q - q\<bar> \<le> 2 powi (max (ilog2 \<bar>q\<bar> - 52) (- 1074)) / 2"
proof -
  define a where "a = \<bar>q\<bar>"
  define u :: rat where "u = 2 powi (max (ilog2 a - 52) (- 1074))"
  define m where "m = round_half_even (a / u)"
  have u: "0 < u" unfolding u_def by (rule zero_less_power_int) simp
  have "\<bar>of_int m - a / u\<bar> \<le> 1 / 2"
    unfolding m_def by (rule round_half_even_error)
  then have "\<bar>of_int m - a / u\<bar> * u \<le> 1 / 2 * u"
    using u by (intro mult_right_mono) simp_all
  moreover have "\<bar>of_int m - a / u\<bar> * u = \<bar>of_int m * u - a\<bar>"
  proof -
    have "\<bar>of_int m - a / u\<bar> * u = \<bar>(of_int m - a / u) * u\<bar>"
      using u by (simp add: abs_mult)
    also have "(of_int m - a / u) * u = of_int m * u - a"
      using u by (simp add: field_simps)
    finally show ?thesis .
  qed
  ultimately have e: "\<bar>of_int m * u - a\<bar> \<le> u / 2"
    by simp
  have td: "to_double q = (if q < 0 then - 1 else 1) * of_int m * u"
    using assms unfolding to_double_def Let_def m_def u_def a_def by simp
  have "\<bar>to_double q - q\<bar> = \<bar>of_int m * u - a\<bar>"
  proof (cases "q < 0")
    case True
    then have "to_double q - q = - (of_int m * u - a)"
      by (simp add: td a_def)
    then show ?thesis
      by (simp only: abs_minus_cancel)
  next
    case False
    then have "to_double q - q = of_int m * u - a"
      by (simp add: td a_def)
    then show ?thesis
      by simp
  qed
  then show ?thesis
    using e unfolding u_def a_def by simp
qed

lemma to_double_relative_error:
  assumes "2 powi (- 1022) \<le> \<bar>q\<bar>"
  shows "\<bar>to_double q - q\<bar> \<le> \<bar>q\<bar> / 2 ^ 53"
proof -
  define a where "a = \<bar>q\<bar>"
  define L :: rat where "L = 2 powi (- 1022)"
  have L: "0 < L" unfolding L_def by (rule zero_less_power_int) simp
  have La: "L \<le> a" using assms by (simp only: L_def a_def)
  have pos: "0 < a" using L La by linarith
  then have q: "q \<noteq> 0" by (auto simp: a_def)
  have b: "2 powi (ilog2 a) \<le> a" "a < 2 powi (ilog2 a + 1)"
    using ilog2_bounds [OF pos] by simp_all
  have lt: "L < 2 powi (ilog2 a + 1)"
    using La b by linarith
  have "- 1022 < ilog2 a + 1"
  proof (rule ccontr)
    assume "\<not> - 1022 < ilog2 a + 1"
    then have "ilog2 a + 1 \<le> - 1022" by simp
    then have "(2 :: rat) powi (ilog2 a + 1) \<le> 2 powi (- 1022)"
      by (intro power_int_increasing) simp_all
    then show False
      using lt by (simp only: L_def)
  qed
  then have p: "max (ilog2 a - 52) (- 1074) = ilog2 a - 52"
    by simp
  have "(2 :: rat) powi (ilog2 a - 52) = 2 powi (ilog2 a) / 2 ^ 52"
    using power_int_diff [of "2 :: rat" "ilog2 a" 52] by simp
  also have "\<dots> \<le> a / 2 ^ 52"
    using b by (simp add: divide_right_mono)
  finally have "2 powi (ilog2 a - 52) / 2 \<le> a / 2 ^ 53"
    by simp
  moreover have "\<bar>to_double q - q\<bar> \<le> 2 powi (ilog2 a - 52) / 2"
    using to_double_error [OF q] by (simp only: p a_def [symmetric])
  ultimately show ?thesis
    unfolding a_def by linarith
qed


section \<open>The doubles of the examples\<close>

lemmas dbl_eval = ilog2_def exp_up.simps round_half_even_def Let_def
  floor_rat_numeral_div floor_rat_neg_numeral_div floor_rat_one_div

lemma to_double_0: "to_double 0 = 0"
  by (simp add: to_double_def)

lemma ex_doubles:
  "to_double 70 = 70"
  "to_double (139 / 2) = 139 / 2"
  "to_double (- (1 / 2)) = - (1 / 2)"
  "to_double (279 / 2) = 279 / 2"
  "to_double (279 / 4) = 279 / 4"
  "to_double 1800 = 1800"
  "to_double 2000 = 2000"
  "to_double 3800 = 3800"
  "to_double 1900 = 1900"
  "to_double 60 = 60"
  "to_double (1203 / 20) = 8465359924572979 / 140737488355328"
  "to_double (21110623253299 / 140737488355328) = 21110623253299 / 140737488355328"
  "to_double (701 / 10) = 2466424483427123 / 35184372088832"
  "to_double (4929330529645363 / 35184372088832) = 4929330529645363 / 35184372088832"
  "to_double (4929330529645363 / 70368744177664) = 4929330529645363 / 70368744177664"
  "to_double (8465359924572979 / 140737488355328) = 8465359924572979 / 140737488355328"
  "to_double (2466424483427123 / 35184372088832) = 2466424483427123 / 35184372088832"
  unfolding to_double_def Let_def by (simp_all add: dbl_eval)

lemma ex_rounded_texts:
  "toFixed1 (Fin 60) = ''60.0''"
  "toFixed1 (Fin (8465359924572979 / 140737488355328)) = ''60.1''"
  "toFixed1 (Fin (21110623253299 / 140737488355328)) = ''0.1''"
  "toFixed1 (Fin (2466424483427123 / 35184372088832)) = ''70.1''"
  "toFixed1 (Fin (4929330529645363 / 70368744177664)) = ''70.0''"
  by (simp_all add: js_eval)


section \<open>The differences of the report\<close>

lemma diffs_from_Some:
  "diffs_from sub (Some p) ws = map (\<lambda>(p, c). Some (sub c p)) (zip (p # ws) ws)"
  by (induction ws arbitrary: p) auto

lemma diffs_from_None: "diffs_from sub None ws = successive_diffs sub ws"
  by (cases ws) (auto simp: successive_diffs_def diffs_from_Some)

lemma length_diffs_from: "length (diffs_from sub prev ws) = length ws"
  by (induction ws arbitrary: prev) auto

lemma report_rows_p0_from:
  "report_rows_p0 prev rs =
     map row_p0
       (zip (filter (\<lambda>r. weight r \<noteq> JNull \<and> weight r \<noteq> JUndefined) rs)
            (diffs_from f_sub prev
               (map (\<lambda>r. parseFloat_dbl (weight r))
                  (filter (\<lambda>r. weight r \<noteq> JNull \<and> weight r \<noteq> JUndefined) rs))))"
proof (induction rs arbitrary: prev)
  case Nil
  show ?case by simp
next
  case (Cons r rs)
  show ?case
  proof (cases "weight r \<noteq> JNull \<and> weight r \<noteq> JUndefined")
    case True
    then show ?thesis
      using Cons.IH [of "Some (parseFloat_dbl (weight r))"]
      by (cases prev) (simp_all add: Let_def row_p0_def)
  next
    case False
    then show ?thesis
      using Cons.IH [of prev] by auto
  qed
qed

lemma report_rows_p1_all: "report_rows_p1 prev rs = map row_p1 (zip rs (all_diffs_p1 prev rs))"
proof (induction rs arbitrary: prev)
  case Nil
  show ?case by simp
next
  case (Cons r rs)
  show ?case
  proof (cases "safeNumber_dbl (weight r)")
    case None
    then show ?thesis
      using Cons.IH [of prev] by (simp add: row_p1_def)
  next
    case (Some a)
    then show ?thesis
      using Cons.IH [of "Some a"] by (cases prev) (simp_all add: row_p1_def)
  qed
qed

lemma length_all_diffs_p1: "length (all_diffs_p1 prev rs) = length rs"
  by (induction rs arbitrary: prev) (auto split: option.splits)

lemma all_diffs_p1_present:
  "map snd (filter (\<lambda>(r, df). safeNumber_dbl (weight r) \<noteq> None) (zip rs (all_diffs_p1 prev rs))) =
     diffs_from (\<lambda>c p. to_double (c - p)) prev (List.map_filter (\<lambda>r. safeNumber_dbl (weight r)) rs)"
  by (induction rs arbitrary: prev) (auto simp: List.map_filter_simps split: option.splits)

lemma all_diffs_p1_absent:
  "(r, df) \<in> set (zip rs (all_diffs_p1 prev rs)) \<Longrightarrow> safeNumber_dbl (weight r) = None \<Longrightarrow> df = None"
  by (induction rs arbitrary: prev) (auto split: option.splits)


lemma all_diffs_p1_no_weight:
  "List.map_filter (\<lambda>r. safeNumber_dbl (weight r)) rs = [] \<Longrightarrow>
   all_diffs_p1 prev rs = replicate (length rs) None"
  by (induction rs arbitrary: prev) (auto simp: List.map_filter_simps split: option.splits)

lemma all_diffs_p1_one_weight:
  "List.map_filter (\<lambda>r. safeNumber_dbl (weight r)) rs = [a] \<Longrightarrow>
   all_diffs_p1 None rs = replicate (length rs) None"
  by (induction rs)
     (auto simp: List.map_filter_simps all_diffs_p1_no_weight split: option.splits)

lemma zip_map_zip:
  "length xs = length ys \<Longrightarrow>
   zip xs (map f (zip xs ys)) = map (\<lambda>(x, y). (x, f (x, y))) (zip xs ys)"
  by (induction xs ys rule: list_induct2) auto

text \<open>
  C4. The table of part\_000 has a row for every record with a present weight, in the order
  of the records, and the difference of the row is the weight minus the last present weight
  before it, as the doubles subtract: none for the first of these records, and records
  without a weight are passed over. The table of part\_001 has a row for every record; the
  rows of the records with a present weight carry the differences of these weights, taken
  in the same way, and the rows of the others carry none. When one record only has a
  present weight, no row of either table has a difference.
\<close>

theorem report_differences:
  "renderReportTable rs =
     (if filter (\<lambda>r. weight r \<noteq> JNull \<and> weight r \<noteq> JUndefined) rs = [] then [NoDataRow]
      else map row_p0
             (zip (filter (\<lambda>r. weight r \<noteq> JNull \<and> weight r \<noteq> JUndefined) rs)
                  (successive_diffs f_sub
                     (map (\<lambda>r. parseFloat_dbl (weight r))
                        (filter (\<lambda>r. weight r \<noteq> JNull \<and> weight r \<noteq> JUndefined) rs))))) \<and>
   (filter (\<lambda>r. weight r \<noteq> JNull \<and> weight r \<noteq> JUndefined) rs = [r] \<longrightarrow>
      renderReportTable rs = [Row (date r) (toFixed1 (parseFloat_dbl (weight r))) Inherit ''-'']) \<and>
   map fst (report_rows_p1 None rs) = map date rs \<and>
   map (\<lambda>(r, row). snd (snd row))
     (filter (\<lambda>(r, row). safeNumber_dbl (weight r) \<noteq> None) (zip rs (report_rows_p1 None rs))) =
     map diff_text_p1 (successive_diffs (\<lambda>c p. to_double (c - p)) (List.map_filter (\<lambda>r. safeNumber_dbl (weight r)) rs)) \<and>
   (\<forall>(r, row) \<in> set (zip rs (report_rows_p1 None rs)).
      safeNumber_dbl (weight r) = None \<longrightarrow> snd (snd row) = ''-'') \<and>
   (List.map_filter (\<lambda>r. safeNumber_dbl (weight r)) rs = [a] \<longrightarrow>
      map (\<lambda>row. snd (snd row)) (report_rows_p1 None rs) = replicate (length rs) ''-'')"
proof (intro conjI)
  let ?ps = "filter (\<lambda>r. weight r \<noteq> JNull \<and> weight r \<noteq> JUndefined) rs"
  let ?ws = "map (\<lambda>r. parseFloat_dbl (weight r)) ?ps"
  have rows: "report_rows_p0 None rs = map row_p0 (zip ?ps (successive_diffs f_sub ?ws))"
    by (simp add: report_rows_p0_from diffs_from_None)
  have len: "length (successive_diffs f_sub ?ws) = length ?ps"
    using length_diffs_from [of f_sub None ?ws] by (simp add: diffs_from_None)
  have empty: "report_rows_p0 None rs = [] \<longleftrightarrow> ?ps = []"
    using len by (cases "successive_diffs f_sub ?ws"; cases ?ps) (auto simp: rows)
  show a: "renderReportTable rs =
     (if ?ps = [] then [NoDataRow] else map row_p0 (zip ?ps (successive_diffs f_sub ?ws)))"
    using empty rows by (simp add: renderReportTable_def Let_def)
  show "?ps = [r] \<longrightarrow>
      renderReportTable rs = [Row (date r) (toFixed1 (parseFloat_dbl (weight r))) Inherit ''-'']"
  proof
    assume one: "?ps = [r]"
    have "renderReportTable rs =
        map row_p0 (zip [r] (successive_diffs f_sub (map (\<lambda>r. parseFloat_dbl (weight r)) [r])))"
      using a by (simp only: one) simp
    then show "renderReportTable rs =
        [Row (date r) (toFixed1 (parseFloat_dbl (weight r))) Inherit ''-'']"
      by (simp add: successive_diffs_def row_p0_def diff_cell_p0_def)
  qed
  let ?ds = "all_diffs_p1 None rs"
  have r1: "report_rows_p1 None rs = map row_p1 (zip rs ?ds)"
    by (rule report_rows_p1_all)
  have l1: "length ?ds = length rs"
    by (rule length_all_diffs_p1)
  have z: "zip rs (map row_p1 (zip rs ?ds)) = map (\<lambda>(r, df). (r, row_p1 (r, df))) (zip rs ?ds)"
    using l1 zip_map_zip [of rs ?ds row_p1] by simp
  have zz: "zip rs (report_rows_p1 None rs) = map (\<lambda>(r, df). (r, row_p1 (r, df))) (zip rs ?ds)"
    by (simp only: r1 z)
  show "map fst (report_rows_p1 None rs) = map date rs"
  proof -
    have "map fst (map row_p1 (zip rs ?ds)) = map date (map fst (zip rs ?ds))"
      by (simp add: row_p1_def case_prod_unfold)
    then show ?thesis
      using l1 by (simp add: r1)
  qed
  show "map (\<lambda>(r, row). snd (snd row))
     (filter (\<lambda>(r, row). safeNumber_dbl (weight r) \<noteq> None) (zip rs (report_rows_p1 None rs))) =
     map diff_text_p1 (successive_diffs (\<lambda>c p. to_double (c - p)) (List.map_filter (\<lambda>r. safeNumber_dbl (weight r)) rs))"
  proof -
    have A: "map (\<lambda>(r, row). snd (snd row))
        (filter (\<lambda>(r, row). safeNumber_dbl (weight r) \<noteq> None) (zip rs (report_rows_p1 None rs))) =
      map diff_text_p1
        (map snd (filter (\<lambda>(r, df). safeNumber_dbl (weight r) \<noteq> None) (zip rs ?ds)))"
      by (simp add: zz filter_map comp_def case_prod_unfold row_p1_def)
    have B: "map snd (filter (\<lambda>(r, df). safeNumber_dbl (weight r) \<noteq> None) (zip rs ?ds)) =
      successive_diffs (\<lambda>c p. to_double (c - p)) (List.map_filter (\<lambda>r. safeNumber_dbl (weight r)) rs)"
      using all_diffs_p1_present [of rs None] by (simp only: diffs_from_None)
    show ?thesis
      by (simp only: A B)
  qed
  show "\<forall>(r, row) \<in> set (zip rs (report_rows_p1 None rs)).
      safeNumber_dbl (weight r) = None \<longrightarrow> snd (snd row) = ''-''"
  proof -
    have "\<And>r df. (r, df) \<in> set (zip rs ?ds) \<Longrightarrow> safeNumber_dbl (weight r) = None \<Longrightarrow>
        snd (snd (row_p1 (r, df))) = ''-''"
      using all_diffs_p1_absent [of _ _ rs None]
      by (fastforce simp: row_p1_def diff_text_p1_def)
    then show ?thesis
      by (auto simp: zz)
  qed
  show "List.map_filter (\<lambda>r. safeNumber_dbl (weight r)) rs = [a] \<longrightarrow>
      map (\<lambda>row. snd (snd row)) (report_rows_p1 None rs) = replicate (length rs) ''-''"
  proof
    assume "List.map_filter (\<lambda>r. safeNumber_dbl (weight r)) rs = [a]"
    then have n: "?ds = replicate (length rs) None"
      by (rule all_diffs_p1_one_weight)
    have "map (\<lambda>row. snd (snd row)) (report_rows_p1 None rs) = map diff_text_p1 (map snd (zip rs ?ds))"
      by (simp add: r1 row_p1_def case_prod_unfold)
    also have "\<dots> = map diff_text_p1 ?ds"
      using l1 by simp
    also have "\<dots> = replicate (length rs) ''-''"
      by (simp only: n) (simp add: diff_text_p1_def)
    finally show "map (\<lambda>row. snd (snd row)) (report_rows_p1 None rs) = replicate (length rs) ''-''" .
  qed
qed


text \<open>
  The theorem at the three records of the example, at the one record of the example
  database, and at the weights 60 and 60.15: the double of 60.15 is shown as 60.1, and its
  difference from 60 as +0.1.
\<close>

theorem report_differences_witness:
  "renderReportTable ex_records =
     [Row ''2024-01-01'' ''70.0'' Inherit ''-'', Row ''2024-01-02'' ''69.5'' Blue ''-0.5''] \<and>
   filter (\<lambda>r. weight r \<noteq> JNull \<and> weight r \<noteq> JUndefined) (records ex_db) =
     [\<lparr>date = ''2024-01-02'', weight = JNum (Fin 70), total_calorie = JNum (Fin 0)\<rparr>] \<and>
   renderReportTable (records ex_db) = [Row ''2024-01-02'' ''70.0'' Inherit ''-''] \<and>
   map (\<lambda>(r, row). snd (snd row))
     (filter (\<lambda>(r, row). safeNumber_dbl (weight r) \<noteq> None)
        (zip ex_records (report_rows_p1 None ex_records))) = [''-'', ''-0.5''] \<and>
   List.map_filter (\<lambda>r. safeNumber_dbl (weight r)) (records ex_db) = [70] \<and>
   map (\<lambda>row. snd (snd row)) (report_rows_p1 None (records ex_db)) = [''-''] \<and>
   renderReportTable ex_steps =
     [Row ''2024-02-01'' ''60.0'' Inherit ''-'', Row ''2024-02-02'' ''60.1'' Red ''+0.1''] \<and>
   map (\<lambda>(r, row). snd (snd row))
     (filter (\<lambda>(r, row). safeNumber_dbl (weight r) \<noteq> None)
        (zip ex_steps (report_rows_p1 None ex_steps))) = [''-'', ''+0.1''] \<and>
   report_rows_p1 None ex_steps =
     [(''2024-02-01'', ''60.0'', ''-''), (''2024-02-02'', ''60.1'', ''+0.1'')]"
proof -
  have f: "filter (\<lambda>r. weight r \<noteq> JNull \<and> weight r \<noteq> JUndefined) (records ex_db) =
     [\<lparr>date = ''2024-01-02'', weight = JNum (Fin 70), total_calorie = JNum (Fin 0)\<rparr>]"
    by (simp add: ex_db_def)
  have g: "List.map_filter (\<lambda>r. safeNumber_dbl (weight r)) (records ex_db) = [70]"
    by (simp add: ex_db_def List.map_filter_simps safeNumber_dbl_def safeNumber_def ex_doubles)
  have h: "List.map_filter (\<lambda>r. safeNumber_dbl (weight r)) ex_records = [70, 139 / 2]"
    by (simp add: ex_records_def List.map_filter_simps safeNumber_dbl_def safeNumber_def
        ex_doubles)
  have k: "List.map_filter (\<lambda>r. safeNumber_dbl (weight r)) ex_steps =
      [60, 8465359924572979 / 140737488355328]"
    by (simp add: ex_steps_def List.map_filter_simps safeNumber_dbl_def safeNumber_def
        ex_doubles)
  have t1: "toFixed1 (Fin 70) = ''70.0''" "toFixed1 (Fin (139 / 2)) = ''69.5''"
    "toFixed1 (Fin (- 1 / 2)) = ''-0.5''" "toFixed1 (Fin (- (1 / 2))) = ''-0.5''"
    by (simp_all add: js_eval)
  have a: "renderReportTable ex_records =
     [Row ''2024-01-01'' ''70.0'' Inherit ''-'', Row ''2024-01-02'' ''69.5'' Blue ''-0.5'']"
    using report_differences [of ex_records undefined undefined]
    by (simp add: ex_records_def successive_diffs_def row_p0_def diff_cell_p0_def t1
        parseFloat_dbl_def f_sub_def ex_doubles)
  have b: "renderReportTable (records ex_db) = [Row ''2024-01-02'' ''70.0'' Inherit ''-'']"
    using report_differences [of "records ex_db"
        "\<lparr>date = ''2024-01-02'', weight = JNum (Fin 70), total_calorie = JNum (Fin 0)\<rparr>" 70] f
    by (simp add: successive_diffs_def row_p0_def diff_cell_p0_def t1 parseFloat_dbl_def
        ex_doubles)
  have c: "map (\<lambda>(r, row). snd (snd row))
     (filter (\<lambda>(r, row). safeNumber_dbl (weight r) \<noteq> None)
        (zip ex_records (report_rows_p1 None ex_records))) = [''-'', ''-0.5'']"
    using report_differences [of ex_records undefined undefined]
    by (simp add: h successive_diffs_def diff_text_p1_def t1 ex_doubles)
  have d: "map (\<lambda>row. snd (snd row)) (report_rows_p1 None (records ex_db)) = [''-'']"
    using report_differences [of "records ex_db"
        "\<lparr>date = ''2024-01-02'', weight = JNum (Fin 70), total_calorie = JNum (Fin 0)\<rparr>" 70] g
    by (simp add: ex_db_def)
  have e: "renderReportTable ex_steps =
     [Row ''2024-02-01'' ''60.0'' Inherit ''-'', Row ''2024-02-02'' ''60.1'' Red ''+0.1'']"
    using report_differences [of ex_steps undefined undefined]
    by (simp add: ex_steps_def successive_diffs_def row_p0_def diff_cell_p0_def
        ex_rounded_texts parseFloat_dbl_def f_sub_def ex_doubles)
  have i: "map (\<lambda>(r, row). snd (snd row))
     (filter (\<lambda>(r, row). safeNumber_dbl (weight r) \<noteq> None)
        (zip ex_steps (report_rows_p1 None ex_steps))) = [''-'', ''+0.1'']"
    using report_differences [of ex_steps undefined undefined]
    by (simp add: k successive_diffs_def diff_text_p1_def ex_rounded_texts ex_doubles)
  have j: "report_rows_p1 None ex_steps =
     [(''2024-02-01'', ''60.0'', ''-''), (''2024-02-02'', ''60.1'', ''+0.1'')]"
    by (simp add: ex_steps_def safeNumber_dbl_def safeNumber_def diff_text_p1_def
        ex_rounded_texts ex_doubles)
  from a b c d e f g i j show ?thesis by simp
qed


section \<open>The summary\<close>

lemma foldl_f_add:
  "foldl f_add (Fin a) (map Fin xs) = Fin (foldl (\<lambda>a b. to_double (a + b)) a xs)"
  by (induction xs arbitrary: a) (simp_all add: f_add_def)

lemma foldl_js_min: "foldl js_min (Fin a) (map Fin xs) = Fin (Min (set (a # xs)))"
proof -
  have "foldl js_min (Fin a) (map Fin xs) = Fin (fold min xs a)"
    by (induction xs arbitrary: a) (auto simp: min.commute)
  then show ?thesis
    using Min.set_eq_fold [of a xs] by simp
qed

lemma foldl_js_max: "foldl js_max (Fin a) (map Fin xs) = Fin (Max (set (a # xs)))"
proof -
  have "foldl js_max (Fin a) (map Fin xs) = Fin (fold max xs a)"
    by (induction xs arbitrary: a) (auto simp: max.commute)
  then show ?thesis
    using Max.set_eq_fold [of a xs] by simp
qed

lemma filter_positive: "filter (\<lambda>w. js_lt (Fin 0) w) vs = map Fin (positives vs)"
proof (induction vs)
  case Nil
  show ?case by (simp add: positives_def List.map_filter_simps)
next
  case (Cons v vs)
  then show ?case
    by (cases v) (auto simp: positives_def List.map_filter_simps)
qed

lemma map_present:
  "map g (present f rs) = map (\<lambda>r. g (f r)) (filter (\<lambda>r. f r \<noteq> JNull \<and> f r \<noteq> JUndefined) rs)"
  by (simp add: present_def filter_map comp_def)

lemma weights_p0_positives:
  "weights_p0 rs = map Fin (positives (map parseFloat_dbl (present weight rs)))"
  unfolding weights_p0_def map_present by (rule filter_positive)

lemma calories_p0_positives:
  "calories_p0 rs = map Fin (positives (map parseInt_dbl (present total_calorie rs)))"
  unfolding calories_p0_def map_present by (rule filter_positive)

lemma Math_min_Fin: "xs \<noteq> [] \<Longrightarrow> Math_min (map Fin xs) = Fin (Min (set xs))"
  by (cases xs) (simp_all add: foldl_js_min)

lemma Math_max_Fin: "xs \<noteq> [] \<Longrightarrow> Math_max (map Fin xs) = Fin (Max (set xs))"
  by (cases xs) (simp_all add: foldl_js_max)

lemma js_mean: "xs \<noteq> [] \<Longrightarrow>
  f_div (foldl f_add (Fin 0) (map Fin xs)) (Fin (of_nat (length xs))) = Fin (float_mean xs)"
  by (simp add: foldl_f_add f_div_def float_mean_def float_sum_def)

lemma summary_p1_mean:
  "summary_p1 vs fmt = (if vs = [] then Dash else Avg (fmt (float_mean vs)) (length vs))"
  by (simp add: summary_p1_def float_mean_def float_sum_def)

text \<open>
  C3, as amended. The summary of part\_000 takes the weights and the calories that are
  present and above 0, and shows for the weights their mean, count, minimum and maximum,
  for the calories their mean and count, and \<open>-\<close> for a metric that has no such value.
  The summary of part\_001 takes every finite number of a field, whatever its sign, and
  shows the mean and the count only, and \<open>-\<close> for a metric that has no number. The mean
  is the one the doubles give: the values are added up from 0 in the order of the records,
  every sum rounded to a double, and the last sum is divided by the count and rounded.
\<close>

theorem summary_statistics:
  "renderSummary rs =
     (let ws = positives (map parseFloat_dbl (present weight rs));
          cs = positives (map parseInt_dbl (present total_calorie rs))
      in (if ws = [] then Dash
          else AvgMinMax (toFixed1 (Fin (float_mean ws))) (length ws)
                 (toFixed1 (Fin (Min (set ws)))) (toFixed1 (Fin (Max (set ws)))),
          if cs = [] then Dash
          else Avg (num_to_string (Fin (of_int (round (float_mean cs))))) (length cs))) \<and>
   (clampDateRange D startv endv = Some (s, e) \<and> db_ok d \<longrightarrow>
      updateReport_p1 D startv endv d =
        (let filtered = filtered_p1 D s e (records d);
             ws = List.map_filter (\<lambda>r. safeNumber_dbl (weight r)) filtered;
             cs = List.map_filter (\<lambda>r. safeNumber_dbl (total_calorie r)) filtered
         in Returned
              (report_rows_p1 None filtered,
               if ws = [] then Dash else Avg (toFixed1 (Fin (float_mean ws))) (length ws),
               if cs = [] then Dash
               else Avg (num_to_string (Fin (of_int (round (float_mean cs))))) (length cs))))"
proof (intro conjI impI)
  let ?ws = "positives (map parseFloat_dbl (present weight rs))"
  let ?cs = "positives (map parseInt_dbl (present total_calorie rs))"
  have w: "fst (renderSummary rs) =
      (if ?ws = [] then Dash
       else AvgMinMax (toFixed1 (Fin (float_mean ?ws))) (length ?ws)
              (toFixed1 (Fin (Min (set ?ws)))) (toFixed1 (Fin (Max (set ?ws)))))"
    by (simp add: renderSummary_def Let_def weights_p0_positives js_mean Math_min_Fin Math_max_Fin)
  have c: "snd (renderSummary rs) =
      (if ?cs = [] then Dash
       else Avg (num_to_string (Fin (of_int (round (float_mean ?cs))))) (length ?cs))"
    by (simp add: renderSummary_def Let_def calories_p0_positives js_mean round_def)
  show "renderSummary rs =
     (let ws = ?ws; cs = ?cs
      in (if ws = [] then Dash
          else AvgMinMax (toFixed1 (Fin (float_mean ws))) (length ws)
                 (toFixed1 (Fin (Min (set ws)))) (toFixed1 (Fin (Max (set ws)))),
          if cs = [] then Dash
          else Avg (num_to_string (Fin (of_int (round (float_mean cs))))) (length cs)))"
    using w c by (simp add: Let_def prod_eq_iff)
next
  assume "clampDateRange D startv endv = Some (s, e) \<and> db_ok d"
  then show "updateReport_p1 D startv endv d =
        (let filtered = filtered_p1 D s e (records d);
             ws = List.map_filter (\<lambda>r. safeNumber_dbl (weight r)) filtered;
             cs = List.map_filter (\<lambda>r. safeNumber_dbl (total_calorie r)) filtered
         in Returned
              (report_rows_p1 None filtered,
               if ws = [] then Dash else Avg (toFixed1 (Fin (float_mean ws))) (length ws),
               if cs = [] then Dash
               else Avg (num_to_string (Fin (of_int (round (float_mean cs))))) (length cs)))"
    by (simp add: updateReport_p1_def getAllRecords_def Let_def summary_p1_mean round_def)
qed


section \<open>Dates of the example\<close>

lemma ex_dates:
  "iso_date_time ''2024-01-01'' = Some 1704067200000"
  "iso_date_time ''2024-01-02'' = Some 1704153600000"
  "iso_date_time ''2024-01-03'' = Some 1704240000000"
  "iso_date_time ''2024-02-01'' = Some 1706745600000"
  "iso_date_time ''2024-02-02'' = Some 1706832000000"
  by (simp_all add: iso_date_time_def days_from_civil_def days_in_month_def is_digit_def
      nat_of_digits_def digit_of_def)

lemma ex_range:
  "clampDateRange iso_date_time ''2024-01-01'' ''2024-01-03'' =
     Some (1704067200000, 1704240000000)"
  "clampDateRange iso_date_time ''2024-02-01'' ''2024-02-02'' =
     Some (1706745600000, 1706832000000)"
  by (simp_all add: clampDateRange_def parseISODate_def ex_dates)

lemma ex_positives:
  "positives (map parseFloat_dbl (present weight ex_records)) = [70, 139 / 2]"
  "positives (map parseInt_dbl (present total_calorie ex_records)) = [1800, 2000]"
  "positives (map parseFloat_dbl (present weight ex_pair)) =
     [70, 2466424483427123 / 35184372088832]"
  "positives (map parseInt_dbl (present total_calorie ex_pair)) = []"
  by (simp_all add: positives_def present_def ex_records_def ex_pair_def List.map_filter_simps
      parseFloat_dbl_def parseInt_dbl_def ex_doubles)

lemma ex_filtered:
  "filtered_p1 iso_date_time 1704067200000 1704240000000 ex_records = ex_records"
  "filtered_p1 iso_date_time 1706745600000 1706832000000 ex_pair = ex_pair"
  by (simp_all add: filtered_p1_def sort_by_date_def parseISODate_def ex_records_def
      ex_pair_def ex_dates)

lemma ex_numbers:
  "List.map_filter (\<lambda>r. safeNumber_dbl (weight r)) ex_records = [70, 139 / 2]"
  "List.map_filter (\<lambda>r. safeNumber_dbl (total_calorie r)) ex_records = [1800, 2000]"
  "List.map_filter (\<lambda>r. safeNumber_dbl (weight r)) ex_pair =
     [70, 2466424483427123 / 35184372088832]"
  "List.map_filter (\<lambda>r. safeNumber_dbl (total_calorie r)) ex_pair = []"
  by (simp_all add: ex_records_def ex_pair_def List.map_filter_simps safeNumber_dbl_def
      safeNumber_def ex_doubles)

lemma ex_means:
  "float_mean [70, 139 / 2] = 279 / 4"
  "float_mean [1800, 2000] = 1900"
  "float_mean [70, 2466424483427123 / 35184372088832] = 4929330529645363 / 70368744177664"
  by (simp_all add: float_mean_def float_sum_def ex_doubles)

lemma ex_texts:
  "toFixed1 (Fin 70) = ''70.0''" "toFixed1 (Fin (139 / 2)) = ''69.5''"
  "toFixed1 (Fin (279 / 4)) = ''69.8''" "num_to_string (Fin 1900) = ''1900''"
  "num_to_string (Fin 0) = ''0''" "toFixed1 (Fin (- (1 / 2))) = ''-0.5''"
  by (simp_all add: js_eval)

text \<open>
  The theorem at the three records of the example, for the range from 1 to 3 January 2024,
  and at the weights 70 and 70.1, for the two days of their records: their sum as a double,
  halved, lies below 70.05, and both summaries show the mean 70.0.
\<close>

theorem summary_statistics_witness:
  "renderSummary ex_records = (AvgMinMax ''69.8'' 2 ''69.5'' ''70.0'', Avg ''1900'' 2) \<and>
   clampDateRange iso_date_time ''2024-01-01'' ''2024-01-03'' =
     Some (1704067200000, 1704240000000) \<and>
   db_ok \<lparr>db_ok = True, records = ex_records\<rparr> \<and>
   updateReport_p1 iso_date_time ''2024-01-01'' ''2024-01-03''
       \<lparr>db_ok = True, records = ex_records\<rparr> =
     Returned (report_rows_p1 None ex_records, Avg ''69.8'' 2, Avg ''1900'' 2) \<and>
   renderSummary ex_pair = (AvgMinMax ''70.0'' 2 ''70.0'' ''70.1'', Dash) \<and>
   clampDateRange iso_date_time ''2024-02-01'' ''2024-02-02'' =
     Some (1706745600000, 1706832000000) \<and>
   updateReport_p1 iso_date_time ''2024-02-01'' ''2024-02-02''
       \<lparr>db_ok = True, records = ex_pair\<rparr> =
     Returned (report_rows_p1 None ex_pair, Avg ''70.0'' 2, Dash)"
proof -
  have a: "renderSummary ex_records = (AvgMinMax ''69.8'' 2 ''69.5'' ''70.0'', Avg ''1900'' 2) \<and>
     updateReport_p1 iso_date_time ''2024-01-01'' ''2024-01-03''
       \<lparr>db_ok = True, records = ex_records\<rparr> =
     Returned (report_rows_p1 None ex_records, Avg ''69.8'' 2, Avg ''1900'' 2)"
    using summary_statistics [of ex_records iso_date_time "''2024-01-01''" "''2024-01-03''"
        1704067200000 1704240000000 "\<lparr>db_ok = True, records = ex_records\<rparr>"]
    by (simp add: ex_range ex_positives ex_filtered ex_numbers ex_means ex_texts)
  have b: "renderSummary ex_pair = (AvgMinMax ''70.0'' 2 ''70.0'' ''70.1'', Dash) \<and>
     updateReport_p1 iso_date_time ''2024-02-01'' ''2024-02-02''
       \<lparr>db_ok = True, records = ex_pair\<rparr> =
     Returned (report_rows_p1 None ex_pair, Avg ''70.0'' 2, Dash)"
    using summary_statistics [of ex_pair iso_date_time "''2024-02-01''" "''2024-02-02''"
        1706745600000 1706832000000 "\<lparr>db_ok = True, records = ex_pair\<rparr>"]
    by (simp add: ex_range ex_positives ex_filtered ex_numbers ex_means ex_texts
        ex_rounded_texts)
  from a b show ?thesis
    by (simp add: ex_range)
qed

text \<open>
  The one record of the example database has the calories 0, which are not above 0; the
  summary of part\_001 counts them and shows the mean 0 of one value, not \<open>-\<close>, and its
  weight summary has no minimum and no maximum.
\<close>

theorem summary_keeps_zero_p1:
  "present total_calorie (records ex_db) = [JNum (Fin 0)] \<and>
   positives (map parseInt_dbl (present total_calorie (records ex_db))) = [] \<and>
   updateReport_p1 iso_date_time ''2024-01-01'' ''2024-01-03'' ex_db =
     Returned ([(''2024-01-02'', ''70.0'', ''-'')], Avg ''70.0'' 1, Avg ''0'' 1)"
  by (simp add: updateReport_p1_def ex_range getAllRecords_def ex_db_def filtered_p1_def
      sort_by_date_def parseISODate_def ex_dates List.map_filter_simps safeNumber_dbl_def
      safeNumber_def summary_p1_def diff_text_p1_def ex_texts present_def positives_def
      floor_rat_one_div parseInt_dbl_def to_double_0 ex_doubles)


section \<open>The records of a range\<close>

lemma mset_sort_by_date: "mset (sort_by_date rs) = mset rs"
  by (simp add: sort_by_date_def)

lemma sorted_sort_by_date: "sorted (map date (sort_by_date rs))"
  by (simp add: sort_by_date_def)

lemma filtered_p0_empty_range: "end < start \<Longrightarrow> filtered_p0 start end all = []"
proof -
  assume "end < start"
  then have "filter (\<lambda>r. start \<le> date r \<and> date r \<le> end) all = []"
    by (auto simp: filter_empty_conv)
  then show ?thesis
    by (simp add: filtered_p0_def sort_by_date_def)
qed

text \<open>
  C2, as amended. In part\_000, for a start and an end that are not empty, the report is
  made of exactly the stored records whose date is between the start and the end in the
  order of strings, both included, sorted by date; of no record when the end is before the
  start. In part\_001, for a start and an end that the platform reads as dates, with the
  start not after the end, the report is made of exactly the stored records whose date is
  read as a time between the two, sorted by date; when the start is after the end, it shows
  the message for an invalid range and makes no report.
\<close>

theorem range_query:
  "(start \<noteq> [] \<and> end \<noteq> [] \<and> db_ok d \<longrightarrow>
      updateReport_p0 start end d =
        Returned (Some (renderReportTable (filtered_p0 start end (records d)),
                        renderSummary (filtered_p0 start end (records d)))) \<and>
      mset (filtered_p0 start end (records d)) =
        filter_mset (\<lambda>r. start \<le> date r \<and> date r \<le> end) (mset (records d)) \<and>
      sorted (map date (filtered_p0 start end (records d))) \<and>
      (end < start \<longrightarrow> filtered_p0 start end (records d) = [])) \<and>
   (parseISODate D startv = Some s \<and> parseISODate D endv = Some e \<and> db_ok d \<longrightarrow>
      (s \<le> e \<longrightarrow>
         (case updateReport_p1 D startv endv d of
            Returned (rows, sw, sc) \<Rightarrow> rows = report_rows_p1 None (filtered_p1 D s e (records d))
          | Alerted a \<Rightarrow> False
          | Threw x \<Rightarrow> False) \<and>
         mset (filtered_p1 D s e (records d)) =
           filter_mset (\<lambda>r. case parseISODate D (date r) of
                                None \<Rightarrow> False
                              | Some t \<Rightarrow> s \<le> t \<and> t \<le> e) (mset (records d)) \<and>
         sorted (map date (filtered_p1 D s e (records d)))) \<and>
      (e < s \<longrightarrow> updateReport_p1 D startv endv d = Alerted InvalidRange))"
proof (intro conjI impI)
  assume a: "start \<noteq> [] \<and> end \<noteq> [] \<and> db_ok d"
  then show "updateReport_p0 start end d =
        Returned (Some (renderReportTable (filtered_p0 start end (records d)),
                        renderSummary (filtered_p0 start end (records d))))"
    by (simp add: updateReport_p0_def getAllRecords_def Let_def)
  show "mset (filtered_p0 start end (records d)) =
        filter_mset (\<lambda>r. start \<le> date r \<and> date r \<le> end) (mset (records d))"
    by (simp add: filtered_p0_def mset_sort_by_date)
  show "sorted (map date (filtered_p0 start end (records d)))"
    by (simp add: filtered_p0_def sorted_sort_by_date)
  assume "end < start"
  then show "filtered_p0 start end (records d) = []"
    by (rule filtered_p0_empty_range)
next
  assume b: "parseISODate D startv = Some s \<and> parseISODate D endv = Some e \<and> db_ok d"
  show "mset (filtered_p1 D s e (records d)) =
           filter_mset (\<lambda>r. case parseISODate D (date r) of
                                None \<Rightarrow> False
                              | Some t \<Rightarrow> s \<le> t \<and> t \<le> e) (mset (records d))"
    by (simp add: filtered_p1_def mset_sort_by_date conj_commute)
  show "sorted (map date (filtered_p1 D s e (records d)))"
    by (simp add: filtered_p1_def sorted_sort_by_date)
  {
    assume "s \<le> e"
    with b show "case updateReport_p1 D startv endv d of
            Returned (rows, sw, sc) \<Rightarrow> rows = report_rows_p1 None (filtered_p1 D s e (records d))
          | Alerted a \<Rightarrow> False
          | Threw x \<Rightarrow> False"
      by (simp add: updateReport_p1_def clampDateRange_def getAllRecords_def Let_def)
  }
  {
    assume "e < s"
    with b show "updateReport_p1 D startv endv d = Alerted InvalidRange"
      by (simp add: updateReport_p1_def clampDateRange_def)
  }
qed


text \<open>
  The theorem at the three records of the example: the range from 1 to 2 January 2024 and
  the empty range from 3 to 1 January in part\_000, the range from 1 to 3 January and the
  range from 3 to 1 January in part\_001.
\<close>

theorem range_query_witness:
  "updateReport_p0 ''2024-01-01'' ''2024-01-02'' \<lparr>db_ok = True, records = ex_records\<rparr> =
     Returned (Some (renderReportTable (filtered_p0 ''2024-01-01'' ''2024-01-02'' ex_records),
                     renderSummary (filtered_p0 ''2024-01-01'' ''2024-01-02'' ex_records))) \<and>
   mset (filtered_p0 ''2024-01-01'' ''2024-01-02'' ex_records) =
     {#\<lparr>date = ''2024-01-01'', weight = JNum (Fin 70), total_calorie = JNull\<rparr>,
       \<lparr>date = ''2024-01-02'', weight = JNum (Fin (139 / 2)), total_calorie = JNum (Fin 1800)\<rparr>#} \<and>
   sorted (map date (filtered_p0 ''2024-01-01'' ''2024-01-02'' ex_records)) \<and>
   ''2024-01-01'' < ''2024-01-03'' \<and>
   filtered_p0 ''2024-01-03'' ''2024-01-01'' ex_records = [] \<and>
   parseISODate iso_date_time ''2024-01-01'' = Some 1704067200000 \<and>
   parseISODate iso_date_time ''2024-01-03'' = Some 1704240000000 \<and>
   mset (filtered_p1 iso_date_time 1704067200000 1704240000000 ex_records) = mset ex_records \<and>
   sorted (map date (filtered_p1 iso_date_time 1704067200000 1704240000000 ex_records)) \<and>
   updateReport_p1 iso_date_time ''2024-01-03'' ''2024-01-01''
     \<lparr>db_ok = True, records = ex_records\<rparr> = Alerted InvalidRange"
proof -
  have p: "parseISODate iso_date_time ''2024-01-01'' = Some 1704067200000"
    "parseISODate iso_date_time ''2024-01-02'' = Some 1704153600000"
    "parseISODate iso_date_time ''2024-01-03'' = Some 1704240000000"
    by (simp_all add: parseISODate_def ex_dates)
  show ?thesis
    using range_query [of "''2024-01-01''" "''2024-01-02''" "\<lparr>db_ok = True, records = ex_records\<rparr>"
        iso_date_time "''2024-01-01''" 1704067200000 "''2024-01-03''" 1704240000000]
      range_query [of "''2024-01-03''" "''2024-01-01''" "\<lparr>db_ok = True, records = ex_records\<rparr>"
        iso_date_time "''2024-01-03''" 1704240000000 "''2024-01-01''" 1704067200000]
    by (simp add: p) (simp add: ex_records_def p)
qed

text \<open>
  For the range from 2 to 1 January 2024, whose start is after its end, part\_001 shows the
  message for an invalid range and makes no report; part\_000 makes the report of no record.
\<close>

theorem empty_range_rejected_p1:
  "''2024-01-01'' < ''2024-01-02'' \<and>
   updateReport_p1 iso_date_time ''2024-01-02'' ''2024-01-01'' ex_db = Alerted InvalidRange \<and>
   updateReport_p0 ''2024-01-02'' ''2024-01-01'' ex_db = Returned (Some ([NoDataRow], Dash, Dash))"
  by (simp add: updateReport_p1_def clampDateRange_def parseISODate_def ex_dates
      updateReport_p0_def getAllRecords_def ex_db_def filtered_p0_def sort_by_date_def
      renderReportTable_def renderSummary_def weights_p0_def calories_p0_def)


section \<open>The lines of the export\<close>

lemma split_lines_one: "CHR 0x0A \<notin> set l \<Longrightarrow> split_lines l = [l]"
  by (induction l) auto

lemma split_lines_line:
  "CHR 0x0A \<notin> set l \<Longrightarrow> split_lines (l @ CHR 0x0A # t) = l # split_lines t"
  by (induction l) auto

lemma split_lines_join:
  "ls \<noteq> [] \<Longrightarrow> \<forall>l \<in> set ls. CHR 0x0A \<notin> set l \<Longrightarrow>
   split_lines (join [CHR 0x0A] ls) = ls"
proof (induction "[CHR 0x0A]" ls rule: join.induct)
  case 1
  then show ?case by simp
next
  case (2 x)
  then show ?case by (simp add: split_lines_one)
next
  case (3 x y ys)
  then show ?case by (simp add: split_lines_line)
qed

lemma split_lines_concat:
  "\<forall>l \<in> set ls. CHR 0x0A \<notin> set l \<Longrightarrow>
   split_lines (concat (map (\<lambda>l. l @ [CHR 0x0A]) ls)) = ls @ [[]]"
  by (induction ls) (auto simp: split_lines_line)

lemma csv_row_text:
  "csv_row r =
     date r @ '','' @
     (if weight r = JNull \<or> weight r = JUndefined then [] else js_to_string (weight r)) @ '','' @
     (if total_calorie r = JNull \<or> total_calorie r = JUndefined then []
      else js_to_string (total_calorie r))"
proof -
  have "\<And>v. csv_cell v = (if v = JNull \<or> v = JUndefined then [] else js_to_string v)"
    subgoal for v by (cases v) (simp_all add: csv_cell_def)
    done
  then show ?thesis
    by (simp add: csv_row_def)
qed

lemma csv_row_one_line: "one_line r \<Longrightarrow> CHR 0x0A \<notin> set (csv_row r)"
  by (simp add: csv_row_text one_line_def)

lemma csv_row_p0_line: "csv_row_p0 r = csv_line_p0 r @ [CHR 0x0A]"
  by (simp add: csv_row_p0_def csv_line_p0_def csv_cell_p0_def)

lemma csv_line_p0_one_line: "one_line r \<Longrightarrow> CHR 0x0A \<notin> set (csv_line_p0 r)"
  by (simp add: csv_line_p0_def one_line_def)

lemma set_sort_by_date: "set (sort_by_date rs) = set rs"
  by (simp add: sort_by_date_def)

lemma digit_char_not_lf: "digit_char d \<noteq> CHR 0x0A" "CHR 0x0A \<noteq> digit_char d"
  by (simp_all add: digit_char_def)

lemma show_nat_not_lf: "CHR 0x0A \<notin> set (show_nat n)"
proof (induction n rule: show_nat.induct)
  case (1 n)
  then show ?case
    by (subst show_nat.simps) (auto simp: digit_char_not_lf)
qed

lemma frac_digits_not_lf: "CHR 0x0A \<notin> set (frac_digits k f)"
  by (induction k arbitrary: f) (auto simp: digit_char_not_lf)

lemma num_to_string_not_lf: "CHR 0x0A \<notin> set (num_to_string n)"
  by (cases n) (auto simp: num_to_string_def Let_def show_nat_not_lf frac_digits_not_lf)

lemma one_line_numbers:
  "CHR 0x0A \<notin> set (date r) \<Longrightarrow> (\<forall>s. weight r \<noteq> JStr s) \<Longrightarrow>
   (\<forall>s. total_calorie r \<noteq> JStr s) \<Longrightarrow> one_line r"
  by (cases "weight r"; cases "total_calorie r")
     (simp_all add: one_line_def num_to_string_not_lf)


text \<open>
  C5, as amended. The text of \<open>exportCSV\<close> in part\_001 is, for every stored record set,
  the header \<open>date,weight,total_calorie\<close> and one row for every record, in ascending
  order of the dates, joined by line feeds; a row is the date, the weight and the calories
  with commas between them, and the empty string for a field that is \<open>null\<close> or
  \<open>undefined\<close>. When no field holds a line feed these are the lines of the text. The
  text of \<open>handleExport\<close> in part\_000 is, for a store that is not empty, the prefix of
  the data URI and the header \<open>Date,Weight,TotalCalorie\<close>, then one row for every
  record in ascending order of the dates, with the empty string for a field that is
  \<open>null\<close>, each line ended by a line feed; for an empty store there is a message and no
  text.
\<close>

theorem csv_export:
  "(db_ok d \<longrightarrow>
      exportCSV d =
        Returned (join [CHR 0x0A]
                    (''date,weight,total_calorie'' # map csv_row (sort_by_date (records d)))) \<and>
      mset (sort_by_date (records d)) = mset (records d) \<and>
      sorted (map date (sort_by_date (records d)))) \<and>
   (db_ok d \<and> (\<forall>r \<in> set (records d). one_line r) \<longrightarrow>
      (case exportCSV d of
         Returned text \<Rightarrow>
           split_lines text =
             ''date,weight,total_calorie'' # map csv_row (sort_by_date (records d))
       | Alerted a \<Rightarrow> False
       | Threw x \<Rightarrow> False)) \<and>
   csv_row r =
     date r @ '','' @
     (if weight r = JNull \<or> weight r = JUndefined then [] else js_to_string (weight r)) @ '','' @
     (if total_calorie r = JNull \<or> total_calorie r = JUndefined then []
      else js_to_string (total_calorie r)) \<and>
   (db_ok (dbase st) \<and> records (dbase st) \<noteq> [] \<and>
    (\<forall>r \<in> set (records (dbase st)). one_line r) \<longrightarrow>
      (case handleExport st of
         Returned text \<Rightarrow>
           split_lines text =
             ''data:text/csv;charset=utf-8,Date,Weight,TotalCalorie''
             # map csv_line_p0 (sort_by_date (records (dbase st))) @ [[]]
       | Alerted a \<Rightarrow> False
       | Threw x \<Rightarrow> False)) \<and>
   (db_ok (dbase st) \<and> records (dbase st) = [] \<longrightarrow> handleExport st = Alerted NoExportData)"
proof (intro conjI impI)
  assume "db_ok d"
  then show "exportCSV d =
        Returned (join [CHR 0x0A]
                    (''date,weight,total_calorie'' # map csv_row (sort_by_date (records d))))"
    by (simp add: exportCSV_def getAllRecords_def csv_lines_def)
  show "mset (sort_by_date (records d)) = mset (records d)"
    by (rule mset_sort_by_date)
  show "sorted (map date (sort_by_date (records d)))"
    by (rule sorted_sort_by_date)
next
  assume a: "db_ok d \<and> (\<forall>r \<in> set (records d). one_line r)"
  let ?ls = "''date,weight,total_calorie'' # map csv_row (sort_by_date (records d))"
  have "\<forall>l \<in> set ?ls. CHR 0x0A \<notin> set l"
    using a by (auto simp: set_sort_by_date csv_row_one_line)
  then have "split_lines (join [CHR 0x0A] ?ls) = ?ls"
    by (intro split_lines_join) simp_all
  then show "case exportCSV d of
         Returned text \<Rightarrow> split_lines text = ?ls
       | Alerted a \<Rightarrow> False
       | Threw x \<Rightarrow> False"
    using a by (simp add: exportCSV_def getAllRecords_def csv_lines_def)
next
  show "csv_row r =
     date r @ '','' @
     (if weight r = JNull \<or> weight r = JUndefined then [] else js_to_string (weight r)) @ '','' @
     (if total_calorie r = JNull \<or> total_calorie r = JUndefined then []
      else js_to_string (total_calorie r))"
    by (rule csv_row_text)
next
  assume b: "db_ok (dbase st) \<and> records (dbase st) \<noteq> [] \<and>
    (\<forall>r \<in> set (records (dbase st)). one_line r)"
  let ?rs = "sort_by_date (records (dbase st))"
  let ?hd = "''data:text/csv;charset=utf-8,Date,Weight,TotalCalorie''"
  have "csv_row_p0 = (\<lambda>r. csv_line_p0 r @ [CHR 0x0A])"
    by (rule ext) (rule csv_row_p0_line)
  then have rows: "concat (map csv_row_p0 ?rs) = concat (map (\<lambda>l. l @ [CHR 0x0A]) (map csv_line_p0 ?rs))"
    by (simp add: comp_def)
  have "\<forall>l \<in> set (map csv_line_p0 ?rs). CHR 0x0A \<notin> set l"
    using b by (auto simp: set_sort_by_date csv_line_p0_one_line)
  then have sl: "split_lines (concat (map csv_row_p0 ?rs)) = map csv_line_p0 ?rs @ [[]]"
    unfolding rows by (rule split_lines_concat)
  have nohd: "CHR 0x0A \<notin> set ?hd"
    by simp
  have "split_lines (?hd @ CHR 0x0A # concat (map csv_row_p0 ?rs)) =
      ?hd # split_lines (concat (map csv_row_p0 ?rs))"
    by (rule split_lines_line [OF nohd])
  also have "\<dots> = ?hd # map csv_line_p0 ?rs @ [[]]"
    by (simp only: sl)
  finally have "split_lines (?hd @ CHR 0x0A # concat (map csv_row_p0 ?rs)) =
      ?hd # map csv_line_p0 ?rs @ [[]]" .
  moreover have "handleExport st = Returned (?hd @ CHR 0x0A # concat (map csv_row_p0 ?rs))"
    using b by (simp add: handleExport_def getAllRecords_def)
  ultimately show "case handleExport st of
         Returned text \<Rightarrow> split_lines text = ?hd # map csv_line_p0 ?rs @ [[]]
       | Alerted a \<Rightarrow> False
       | Threw x \<Rightarrow> False"
    by simp
next
  assume "db_ok (dbase st) \<and> records (dbase st) = []"
  then show "handleExport st = Alerted NoExportData"
    by (simp add: handleExport_def getAllRecords_def)
qed

lemma ex_strings:
  "num_to_string (Fin 70) = ''70''" "num_to_string (Fin (139 / 2)) = ''69.5''"
  "num_to_string (Fin 1800) = ''1800''" "num_to_string (Fin 2000) = ''2000''"
  "num_to_string (Fin 0) = ''0''"
  by (simp_all add: js_eval)

lemma ex_one_line: "\<forall>r \<in> set ex_records. one_line r" "\<forall>r \<in> set (records ex_db). one_line r"
  by (simp_all add: ex_records_def ex_db_def one_line_def ex_strings)

lemma ex_sorted: "sort_by_date ex_records = ex_records" "sort_by_date (records ex_db) = records ex_db"
  by (simp_all add: sort_by_date_def ex_records_def ex_db_def)

text \<open>
  The theorem at the three records of the example for part\_001, and at the example
  database and an empty database for part\_000.
\<close>

theorem csv_export_witness:
  "db_ok \<lparr>db_ok = True, records = ex_records\<rparr> \<and>
   list_all one_line ex_records \<and>
   exportCSV \<lparr>db_ok = True, records = ex_records\<rparr> =
     Returned (''date,weight,total_calorie'' @ [CHR 0x0A] @ ''2024-01-01,70,'' @ [CHR 0x0A] @
               ''2024-01-02,69.5,1800'' @ [CHR 0x0A] @ ''2024-01-03,,2000'') \<and>
   (case exportCSV \<lparr>db_ok = True, records = ex_records\<rparr> of
      Returned text \<Rightarrow>
        split_lines text =
          [''date,weight,total_calorie'', ''2024-01-01,70,'', ''2024-01-02,69.5,1800'',
           ''2024-01-03,,2000'']
    | Alerted a \<Rightarrow> False
    | Threw x \<Rightarrow> False) \<and>
   records (dbase ex_app) \<noteq> [] \<and>
   (case handleExport ex_app of
      Returned text \<Rightarrow>
        split_lines text =
          [''data:text/csv;charset=utf-8,Date,Weight,TotalCalorie'', ''2024-01-02,70,0'', []]
    | Alerted a \<Rightarrow> False
    | Threw x \<Rightarrow> False) \<and>
   handleExport (ex_app\<lparr>dbase := empty_db True\<rparr>) = Alerted NoExportData"
proof -
  have rows: "map csv_row ex_records =
      [''2024-01-01,70,'', ''2024-01-02,69.5,1800'', ''2024-01-03,,2000'']"
    by (simp add: csv_row_def csv_cell_def ex_records_def ex_strings)
  have rows0: "map csv_line_p0 (records ex_db) = [''2024-01-02,70,0'']"
    by (simp add: csv_line_p0_def ex_db_def ex_strings)
  have d: "dbase ex_app = ex_db" "records ex_db \<noteq> []" "db_ok ex_db"
    by (simp_all add: ex_app_def ex_db_def)
  have e: "dbase (ex_app\<lparr>dbase := empty_db True\<rparr>) = empty_db True"
    "db_ok (empty_db True)" "records (empty_db True) = []"
    by (simp_all add: empty_db_def)
  show ?thesis
    using csv_export [of "\<lparr>db_ok = True, records = ex_records\<rparr>" undefined ex_app]
      csv_export [of "\<lparr>db_ok = True, records = ex_records\<rparr>" undefined
        "ex_app\<lparr>dbase := empty_db True\<rparr>"]
    by (simp add: ex_one_line ex_sorted rows rows0 d e list_all_iff split: result.splits)
qed

text \<open>
  The export of part\_000 gives no text for the empty store, and for the example database
  a text whose first line is not the header \<open>date,weight,total_calorie\<close>.
\<close>

theorem export_header_p0:
  "handleExport (ex_app\<lparr>dbase := empty_db True\<rparr>) = Alerted NoExportData \<and>
   handleExport ex_app =
     Returned (''data:text/csv;charset=utf-8,Date,Weight,TotalCalorie'' @ [CHR 0x0A] @
               ''2024-01-02,70,0'' @ [CHR 0x0A]) \<and>
   ''data:text/csv;charset=utf-8,Date,Weight,TotalCalorie'' \<noteq> ''date,weight,total_calorie''"
  by (simp add: handleExport_def getAllRecords_def empty_db_def ex_app_def ex_db_def
      sort_by_date_def csv_row_p0_def csv_cell_p0_def ex_strings)

end
